theory Spec2Isabelle
  imports Main "HOL-Library.Word" "HOL-Library.Sublist" "HOL-Library.Multiset"
begin

section \<open>Data model (schema.sql)\<close>

text \<open>
  The relational store is modelled as four tables, each a list of rows in insertion
  order. Timestamps are integers on one common scale (milliseconds since the epoch).
  String comparison in \<open>WHERE\<close> and \<open>GROUP BY\<close> is modelled as equality (the collation
  of the schema is not modelled). The flag \<open>db_up\<close> says that the database is available:
  when it is false, \<open>getPool()\<close> or the first \<open>execute\<close> of a handler throws.
\<close>

type_synonym instant = int

type_synonym byte = "8 word"

record app_row =
  a_id :: string
  a_name :: string
  a_description :: "string option"
  a_created_at :: instant

record api_key_row =
  ak_id :: string
  ak_app_id :: string
  ak_api_key :: string
  ak_is_revoked :: bool
  ak_expires_at :: "instant option"
  ak_created_at :: instant
  ak_revoked_at :: "instant option"

record event_row =
  ev_id :: string
  ev_app_id :: string
  ev_api_key_id :: string
  ev_event_name :: string
  ev_user_id :: string
  ev_session_id :: "string option"
  ev_device_type :: "string option"
  ev_device_model :: "string option"
  ev_os_name :: "string option"
  ev_os_version :: "string option"
  ev_browser_name :: "string option"
  ev_browser_version :: "string option"
  ev_ip_address :: "string option"
  ev_user_agent :: "string option"
  ev_properties :: "string option"
  ev_timestamp :: instant
  ev_created_at :: instant

record short_url_row =
  su_id :: string
  su_app_id :: string
  su_slug :: string
  su_original_url :: string
  su_click_count :: nat

record store =
  db_up :: bool
  apps :: "app_row list"
  api_keys :: "api_key_row list"
  events :: "event_row list"
  short_urls :: "short_url_row list"

section \<open>Responses\<close>

record summary =
  s_event_name :: string
  s_app_id :: "string option"
  s_range_start :: string
  s_range_end :: string
  s_total_count :: nat
  s_unique_users :: nat
  s_device_breakdown :: "(string \<times> nat) list"

record masked_key =
  mk_id :: string
  mk_api_key :: string
  mk_is_revoked :: bool
  mk_expires_at :: "instant option"
  mk_created_at :: instant
  mk_revoked_at :: "instant option"
  mk_app_name :: string

record recent_event =
  re_event_name :: string
  re_timestamp :: instant
  re_properties :: "string option"

record user_stats =
  us_user_id :: string
  us_app_id :: "string option"
  us_total_events :: nat
  us_first_seen :: instant
  us_last_seen :: instant
  us_ip_address :: "string option"
  us_recent_events :: "recent_event list"

text \<open>
  The JSON bodies the handlers send. \<open>Error_body error message\<close> is the two-field error
  shape; the other constructors are the \<open>success: true\<close> bodies, one per handler.
  \<open>Cached_summary p\<close> is \<open>{success, data: JSON.parse(p), cached: true}\<close> and
  \<open>Fresh_summary r\<close> is \<open>{success, data: r, cached: false}\<close>. \<open>Redirect_to url\<close> is
  the answer of \<open>res.redirect(302, url)\<close>, which carries the target in its \<open>Location\<close>
  header.
\<close>

datatype body =
    Error_body string string
  | Registered string string
  | Key_list "masked_key list"
  | Revoked_ok
  | Regenerated string
  | Event_collected string
  | Fresh_summary summary
  | Cached_summary string
  | User_stats user_stats
  | Short_url_created string string string
  | Redirect_to string

record response =
  status :: nat
  body :: body

definition bad_request :: "string \<Rightarrow> response" where
  "bad_request msg = \<lparr>status = 400, body = Error_body ''Bad Request'' msg\<rparr>"

definition unauthorized :: "string \<Rightarrow> response" where
  "unauthorized msg = \<lparr>status = 401, body = Error_body ''Unauthorized'' msg\<rparr>"

definition not_found :: "string \<Rightarrow> response" where
  "not_found msg = \<lparr>status = 404, body = Error_body ''Not Found'' msg\<rparr>"

definition conflict :: "string \<Rightarrow> response" where
  "conflict msg = \<lparr>status = 409, body = Error_body ''Conflict'' msg\<rparr>"

definition internal_error :: "string \<Rightarrow> response" where
  "internal_error msg = \<lparr>status = 500, body = Error_body ''Internal Server Error'' msg\<rparr>"

definition ok :: "body \<Rightarrow> response" where
  "ok b = \<lparr>status = 200, body = b\<rparr>"

definition created :: "body \<Rightarrow> response" where
  "created b = \<lparr>status = 201, body = b\<rparr>"

definition redirect :: "string \<Rightarrow> response" where
  "redirect url = \<lparr>status = 302, body = Redirect_to url\<rparr>"

section \<open>JavaScript helpers\<close>

text \<open>
  Request fields are strings or absent. \<open>present\<close> is the truthiness test the handlers
  apply (\<open>if (!x)\<close>, \<open>x ? a : b\<close>, \<open>x || null\<close>): an absent field and the empty string
  are both falsy.
\<close>

fun present :: "string option \<Rightarrow> string option" where
  "present None = None"
| "present (Some s) = (if s = [] then None else Some s)"

text \<open>The result of evaluating an expression that may throw.\<close>

datatype 'a outcome = Threw | Returned 'a

text \<open>
  What the handlers take from the JavaScript runtime, the database driver and the
  process environment:
  \<open>js_trim\<close> is \<open>String.prototype.trim\<close>;
  \<open>date_parse s\<close> is \<open>new Date(s).getTime()\<close>, \<open>None\<close> when that is \<open>NaN\<close>;
  \<open>to_iso\<close> is \<open>toISOString\<close>; \<open>json_ok s\<close> says that \<open>JSON.parse(s)\<close> does not throw;
  \<open>json_stringify\<close> is \<open>JSON.stringify\<close> on a summary;
  \<open>json_click slug id\<close> is \<open>JSON.stringify({ slug, short_url_id: id })\<close>;
  \<open>reparse p\<close> is what \<open>v ? JSON.parse(v) : null\<close> gives when \<open>v\<close> is the value the driver
  hands over for a JSON column that holds the text \<open>p\<close> (the driver decodes JSON columns,
  so \<open>JSON.parse\<close> gets the decoded value, not the text): \<open>Threw\<close> when \<open>JSON.parse\<close>
  throws, as it does for every decoded object, \<open>Returned None\<close> when \<open>v\<close> is falsy, and
  \<open>Returned (Some t)\<close> with the text \<open>t\<close> of the parsed value otherwise;
  \<open>cache_ttl\<close> is \<open>parseInt(process.env.CACHE_TTL_SEC || '300', 10)\<close>.
\<close>

record runtime =
  js_trim :: "string \<Rightarrow> string"
  date_parse :: "string \<Rightarrow> instant option"
  to_iso :: "instant \<Rightarrow> string"
  json_ok :: "string \<Rightarrow> bool"
  json_stringify :: "summary \<Rightarrow> string"
  json_click :: "string \<Rightarrow> string \<Rightarrow> string"
  reparse :: "string \<Rightarrow> string option outcome"
  cache_ttl :: int

subsection \<open>Key generator (utils/keygen.js) and Buffer encodings\<close>

definition hex_digit :: "nat \<Rightarrow> char" where
  "hex_digit n = ''0123456789abcdef'' ! n"

definition hex_byte :: "byte \<Rightarrow> string" where
  "hex_byte b = [hex_digit (unat b div 16), hex_digit (unat b mod 16)]"

text \<open>\<open>Buffer.toString('hex')\<close>: two lower-case digits per byte.\<close>

definition to_hex :: "byte list \<Rightarrow> string" where
  "to_hex bs = concat (map hex_byte bs)"

text \<open>
  \<open>genApiKey(length = 32)\<close> is \<open>crypto.randomBytes(length).toString('hex')\<close>; the
  argument here is the buffer \<open>randomBytes\<close> returned.
\<close>

definition genApiKey :: "byte list \<Rightarrow> string" where
  "genApiKey random_bytes = to_hex random_bytes"

definition b64url_digit :: "nat \<Rightarrow> char" where
  "b64url_digit n =
     ''ABCDEFGHIJKLMNOPQRSTUVWXYZabcdefghijklmnopqrstuvwxyz0123456789-_'' ! n"

text \<open>
  \<open>Buffer.toString('base64url')\<close>: RFC 4648 section 5, without padding. Three bytes give
  four digits; a rest of one byte gives two digits and a rest of two bytes gives three.
\<close>

fun base64url :: "byte list \<Rightarrow> string" where
  "base64url [] = []"
| "base64url [a] =
     [b64url_digit (unat a div 4), b64url_digit ((unat a mod 4) * 16)]"
| "base64url [a, b] =
     [b64url_digit (unat a div 4),
      b64url_digit ((unat a mod 4) * 16 + unat b div 16),
      b64url_digit ((unat b mod 16) * 4)]"
| "base64url (a # b # c # rest) =
     [b64url_digit (unat a div 4),
      b64url_digit ((unat a mod 4) * 16 + unat b div 16),
      b64url_digit ((unat b mod 16) * 4 + unat c div 64),
      b64url_digit (unat c mod 64)] @ base64url rest"

section \<open>Store constraints\<close>

text \<open>
  An \<open>INSERT\<close> fails (the driver throws) when it violates a primary key, a \<open>UNIQUE\<close>
  column or a foreign key of the schema; \<open>None\<close> is that failure.
\<close>

definition app_exists :: "store \<Rightarrow> string \<Rightarrow> bool" where
  "app_exists st a = (a \<in> set (map a_id (apps st)))"

definition insert_app :: "store \<Rightarrow> app_row \<Rightarrow> store option" where
  "insert_app st r =
     (if a_id r \<in> set (map a_id (apps st)) then None
      else Some (st\<lparr>apps := apps st @ [r]\<rparr>))"

definition insert_api_key :: "store \<Rightarrow> api_key_row \<Rightarrow> store option" where
  "insert_api_key st r =
     (if ak_id r \<in> set (map ak_id (api_keys st)) then None
      else if ak_api_key r \<in> set (map ak_api_key (api_keys st)) then None
      else if \<not> app_exists st (ak_app_id r) then None
      else Some (st\<lparr>api_keys := api_keys st @ [r]\<rparr>))"

definition insert_event :: "store \<Rightarrow> event_row \<Rightarrow> store option" where
  "insert_event st r =
     (if ev_id r \<in> set (map ev_id (events st)) then None
      else if \<not> app_exists st (ev_app_id r) then None
      else if ev_api_key_id r \<notin> set (map ak_id (api_keys st)) then None
      else Some (st\<lparr>events := events st @ [r]\<rparr>))"

definition insert_short_url :: "store \<Rightarrow> short_url_row \<Rightarrow> store option" where
  "insert_short_url st r =
     (if su_id r \<in> set (map su_id (short_urls st)) then None
      else if su_slug r \<in> set (map su_slug (short_urls st)) then None
      else if \<not> app_exists st (su_app_id r) then None
      else Some (st\<lparr>short_urls := short_urls st @ [r]\<rparr>))"

section \<open>Authentication (middlewares/apiKeyAuth.js)\<close>

text \<open>The context \<open>req.app\<close> that the middleware attaches.\<close>

record auth_ctx =
  ctx_id :: string
  ctx_apiKeyId :: string
  ctx_name :: string

text \<open>
  \<open>req.app\<close> as a handler finds it: the Express application, or, behind \<open>apiKeyAuth\<close>,
  the plain object \<open>{id, apiKeyId, name}\<close> that the middleware assigned to \<open>req.app\<close>.
\<close>

datatype req_app = Express_application | Auth_context auth_ctx

text \<open>
  Express defines \<open>req.ip\<close> and \<open>req.protocol\<close> as getters that start with
  \<open>this.app.get('trust proxy fn')\<close>. While \<open>req.app\<close> is the application they return a
  value; once \<open>req.app\<close> is the plain object of \<open>apiKeyAuth\<close>, which has no \<open>get\<close>,
  reading either property throws a TypeError. The second argument is the value the getter
  returns when it returns.
\<close>

definition req_ip :: "req_app \<Rightarrow> string option \<Rightarrow> string option outcome" where
  "req_ip app address =
     (case app of Express_application \<Rightarrow> Returned address | Auth_context ctx \<Rightarrow> Threw)"

definition req_protocol :: "req_app \<Rightarrow> string \<Rightarrow> string outcome" where
  "req_protocol app proto =
     (case app of Express_application \<Rightarrow> Returned proto | Auth_context ctx \<Rightarrow> Threw)"

definition keys_join_apps :: "store \<Rightarrow> (api_key_row \<times> app_row) list" where
  "keys_join_apps st = [(k, a). k \<leftarrow> api_keys st, a \<leftarrow> apps st, ak_app_id k = a_id a]"

definition key_usable :: "instant \<Rightarrow> api_key_row \<Rightarrow> bool" where
  "key_usable now k =
     (\<not> ak_is_revoked k \<and> (case ak_expires_at k of None \<Rightarrow> True | Some t \<Rightarrow> now < t))"

text \<open>
  \<open>apiKeyAuth st header now\<close>: \<open>header\<close> is the \<open>x-api-key\<close> request header and \<open>now\<close>
  the value of \<open>NOW()\<close>. \<open>Inl\<close> is the response the middleware sends itself; \<open>Inr\<close> is
  the context passed on to the handler by \<open>next()\<close>.
\<close>

definition apiKeyAuth :: "store \<Rightarrow> string option \<Rightarrow> instant \<Rightarrow> response + auth_ctx" where
  "apiKeyAuth st header now =
     (case present header of
        None \<Rightarrow> Inl (unauthorized ''API key is required. Please provide x-api-key header.'')
      | Some apiKey \<Rightarrow>
          if \<not> db_up st then Inl (internal_error ''Failed to authenticate API key.'')
          else
            (case filter (\<lambda>(k, a). ak_api_key k = apiKey \<and> key_usable now k)
                    (keys_join_apps st) of
               [] \<Rightarrow> Inl (unauthorized ''Invalid or revoked API key.'')
             | (k, a) # _ \<Rightarrow>
                 Inr \<lparr>ctx_id = ak_app_id k, ctx_apiKeyId = ak_id k, ctx_name = a_name a\<rparr>))"

section \<open>Registration and credential lifecycle (controllers/auth.controller.js)\<close>

record register_body =
  rb_name :: "string option"
  rb_description :: "string option"

text \<open>
  \<open>registerApp rt st b appId apiKeyId random_bytes now\<close>: \<open>appId\<close> and \<open>apiKeyId\<close> are the two
  values of \<open>genId()\<close>, \<open>random_bytes\<close> the buffer \<open>crypto.randomBytes(32)\<close> returned.
  A failed insert rolls the transaction back: the store is returned unchanged.
\<close>

definition registerApp ::
  "runtime \<Rightarrow> store \<Rightarrow> register_body \<Rightarrow> string \<Rightarrow> string \<Rightarrow> byte list \<Rightarrow> instant
     \<Rightarrow> response \<times> store" where
  "registerApp rt st b appId apiKeyId random_bytes now =
     (case present (rb_name b) of
        None \<Rightarrow>
          (bad_request ''Application name is required and must be a non-empty string.'', st)
      | Some name \<Rightarrow>
          if js_trim rt name = [] then
            (bad_request ''Application name is required and must be a non-empty string.'', st)
          else if \<not> db_up st then (internal_error ''Failed to register application.'', st)
          else
            (case insert_app st
                    \<lparr>a_id = appId, a_name = js_trim rt name,
                     a_description = present (rb_description b), a_created_at = now\<rparr> of
               None \<Rightarrow> (internal_error ''Failed to register application.'', st)
             | Some st1 \<Rightarrow>
                 let apiKey = genApiKey random_bytes in
                 (case insert_api_key st1
                         \<lparr>ak_id = apiKeyId, ak_app_id = appId, ak_api_key = apiKey,
                          ak_is_revoked = False, ak_expires_at = None,
                          ak_created_at = now, ak_revoked_at = None\<rparr> of
                    None \<Rightarrow> (internal_error ''Failed to register application.'', st)
                  | Some st2 \<Rightarrow> (created (Registered appId apiKey), st2))))"

text \<open>\<open>s.slice(-n)\<close>: the last \<open>n\<close> characters, or all of \<open>s\<close> when it is shorter.\<close>

definition slice_last :: "nat \<Rightarrow> string \<Rightarrow> string" where
  "slice_last n s = drop (length s - n) s"

definition mask_row :: "api_key_row \<times> app_row \<Rightarrow> masked_key" where
  "mask_row r =
     (case r of (k, a) \<Rightarrow>
        \<lparr>mk_id = ak_id k,
         mk_api_key = (if ak_is_revoked k then ''REVOKED''
                       else ''****'' @ slice_last 8 (ak_api_key k)),
         mk_is_revoked = ak_is_revoked k,
         mk_expires_at = ak_expires_at k,
         mk_created_at = ak_created_at k,
         mk_revoked_at = ak_revoked_at k,
         mk_app_name = a_name a\<rparr>)"

text \<open>
  The rows of \<open>getApiKey\<close>'s query. \<open>ORDER BY ak.created_at DESC\<close> is a stable sort on the
  negated creation time: SQL leaves the order of rows with equal creation times open, the
  model keeps them in insertion order.
\<close>

definition key_rows :: "store \<Rightarrow> string \<Rightarrow> (api_key_row \<times> app_row) list" where
  "key_rows st app_id =
     sort_key (\<lambda>r. - ak_created_at (fst r))
       (filter (\<lambda>r. ak_app_id (fst r) = app_id) (keys_join_apps st))"

definition getApiKey :: "store \<Rightarrow> string option \<Rightarrow> response" where
  "getApiKey st app_id_param =
     (case present app_id_param of
        None \<Rightarrow> bad_request ''app_id query parameter is required.''
      | Some app_id \<Rightarrow>
          if \<not> db_up st then internal_error ''Failed to retrieve API keys.''
          else ok (Key_list (map mask_row (key_rows st app_id))))"

definition revoke_row :: "instant \<Rightarrow> api_key_row \<Rightarrow> api_key_row" where
  "revoke_row now k = k\<lparr>ak_is_revoked := True, ak_revoked_at := Some now\<rparr>"

text \<open>
  \<open>revokeKey\<close> runs \<open>UPDATE api_keys SET is_revoked = TRUE, revoked_at = NOW() WHERE id = ?\<close>.
  \<open>affectedRows\<close> is the number of rows the \<open>WHERE\<close> clause matched (the driver connects
  with its default flags, under which the server reports found rows).
\<close>

definition revokeKey :: "store \<Rightarrow> string option \<Rightarrow> instant \<Rightarrow> response \<times> store" where
  "revokeKey st api_key_id_param now =
     (case present api_key_id_param of
        None \<Rightarrow> (bad_request ''api_key_id is required.'', st)
      | Some api_key_id \<Rightarrow>
          if \<not> db_up st then (internal_error ''Failed to revoke API key.'', st)
          else
            let affectedRows = length (filter (\<lambda>k. ak_id k = api_key_id) (api_keys st));
                st' = st\<lparr>api_keys :=
                        map (\<lambda>k. if ak_id k = api_key_id then revoke_row now k else k)
                          (api_keys st)\<rparr>
            in if affectedRows = 0 then (not_found ''API key not found.'', st')
               else (ok Revoked_ok, st'))"

text \<open>
  \<open>UPDATE api_keys SET is_revoked = TRUE, revoked_at = NOW()
  WHERE app_id = ? AND is_revoked = FALSE\<close>
\<close>

definition revoke_active :: "string \<Rightarrow> instant \<Rightarrow> api_key_row list \<Rightarrow> api_key_row list" where
  "revoke_active app_id now ks =
     map (\<lambda>k. if ak_app_id k = app_id \<and> \<not> ak_is_revoked k then revoke_row now k else k) ks"

text \<open>
  \<open>regenerateKey st app_id new_id random_bytes now\<close>: inside one transaction, revoke the
  active keys of the application, then insert a new one. When the insert fails the
  transaction is rolled back and the store is returned unchanged.
\<close>

definition regenerateKey ::
  "store \<Rightarrow> string option \<Rightarrow> string \<Rightarrow> byte list \<Rightarrow> instant \<Rightarrow> response \<times> store" where
  "regenerateKey st app_id_param new_id random_bytes now =
     (case present app_id_param of
        None \<Rightarrow> (bad_request ''app_id is required.'', st)
      | Some app_id \<Rightarrow>
          if \<not> db_up st then (internal_error ''Failed to regenerate API key.'', st)
          else
            let st1 = st\<lparr>api_keys := revoke_active app_id now (api_keys st)\<rparr>;
                apiKey = genApiKey random_bytes
            in (case insert_api_key st1
                       \<lparr>ak_id = new_id, ak_app_id = app_id, ak_api_key = apiKey,
                        ak_is_revoked = False, ak_expires_at = None,
                        ak_created_at = now, ak_revoked_at = None\<rparr> of
                  None \<Rightarrow> (internal_error ''Failed to regenerate API key.'', st)
                | Some st2 \<Rightarrow> (ok (Regenerated apiKey), st2)))"

section \<open>Short links (controllers/shorturl.controller.js)\<close>

record shorten_body =
  sb_url :: "string option"
  sb_slug :: "string option"

text \<open>
  \<open>createShortUrl rt url_ok st app b random_bytes new_id proto host\<close>: \<open>url_ok u\<close> says
  that \<open>new URL(u)\<close> does not throw, \<open>app\<close> is \<open>req.app\<close>, \<open>random_bytes\<close> is the buffer
  \<open>crypto.randomBytes(4)\<close> returned, \<open>new_id\<close> the value of \<open>genId()\<close>, \<open>proto\<close> what the
  getter of \<open>req.protocol\<close> returns when it returns, and \<open>host\<close> is \<open>req.get('host')\<close>.
  The \<open>INSERT\<close> takes \<open>req.app.id\<close>; the Express application has no \<open>id\<close>, and the
  column \<open>app_id\<close> takes no missing value, so the \<open>INSERT\<close> fails then. The response
  object, and with it \<open>req.protocol\<close>, is evaluated after the \<open>INSERT\<close>: when that
  throws, the row stays stored and the \<open>catch\<close> answers 500.
\<close>

definition createShortUrl ::
  "runtime \<Rightarrow> (string \<Rightarrow> bool) \<Rightarrow> store \<Rightarrow> req_app \<Rightarrow> shorten_body \<Rightarrow> byte list \<Rightarrow> string
     \<Rightarrow> string \<Rightarrow> string \<Rightarrow> response \<times> store" where
  "createShortUrl rt url_ok st app b random_bytes new_id proto host =
     (case present (sb_url b) of
        None \<Rightarrow> (bad_request ''url is required and must be a valid URL string.'', st)
      | Some url \<Rightarrow>
          if js_trim rt url = [] then
            (bad_request ''url is required and must be a valid URL string.'', st)
          else if \<not> url_ok url then (bad_request ''Invalid URL format.'', st)
          else if \<not> db_up st then (internal_error ''Failed to create short URL.'', st)
          else
            let finalSlug =
                  (case present (sb_slug b) of
                     Some slug \<Rightarrow> slug
                   | None \<Rightarrow> take 8 (base64url random_bytes))
            in if filter (\<lambda>r. su_slug r = finalSlug) (short_urls st) \<noteq> [] then
                 (conflict ''Slug already exists. Please choose a different slug.'', st)
               else
                 (case app of
                    Express_application \<Rightarrow> (internal_error ''Failed to create short URL.'', st)
                  | Auth_context ctx \<Rightarrow>
                      (case insert_short_url st
                              \<lparr>su_id = new_id, su_app_id = ctx_id ctx, su_slug = finalSlug,
                               su_original_url = js_trim rt url, su_click_count = 0\<rparr> of
                         None \<Rightarrow> (internal_error ''Failed to create short URL.'', st)
                       | Some st' \<Rightarrow>
                           (case req_protocol app proto of
                              Threw \<Rightarrow> (internal_error ''Failed to create short URL.'', st')
                            | Returned protocol \<Rightarrow>
                                (created
                                   (Short_url_created finalSlug
                                      (protocol @ ''://'' @ host @ ''/s/'' @ finalSlug)
                                      (js_trim rt url)),
                                 st')))))"

text \<open>
  routes/shorturl.routes.js: \<open>router.post('/shorten', apiKeyAuth, createShortUrl)\<close>.
  \<open>t_auth\<close> is the value of \<open>NOW()\<close> in the query of the middleware.
\<close>

definition shorten_route ::
  "runtime \<Rightarrow> (string \<Rightarrow> bool) \<Rightarrow> store \<Rightarrow> string option \<Rightarrow> instant \<Rightarrow> shorten_body
     \<Rightarrow> byte list \<Rightarrow> string \<Rightarrow> string \<Rightarrow> string \<Rightarrow> response \<times> store" where
  "shorten_route rt url_ok st header t_auth b random_bytes new_id proto host =
     (case apiKeyAuth st header t_auth of
        Inl r \<Rightarrow> (r, st)
      | Inr ctx \<Rightarrow>
          createShortUrl rt url_ok st (Auth_context ctx) b random_bytes new_id proto host)"

text \<open>
  \<open>redirectShortUrl rt st slug ipAddress user_agent eventId now\<close>, the handler of
  \<open>GET /s/:slug\<close>, which no middleware precedes: \<open>ipAddress\<close> is the value of the
  variable \<open>ipAddress\<close> after the fallbacks (null is \<open>None\<close>), \<open>eventId\<close> the value of
  \<open>genId()\<close> and \<open>now\<close> the value of \<open>NOW()\<close>. The handler issues four statements on
  the pool, with no transaction: the click stays counted when a later statement fails.
  The credential query has \<open>LIMIT 1\<close> and no order; the model takes the first active
  row in table order. The columns the \<open>INSERT\<close> does not list are null, and
  \<open>created_at\<close> takes its default, the current time. In the template literal
  \<open>anonymous_${ipAddress}\<close> null reads \<open>null\<close>.
\<close>

definition redirectShortUrl ::
  "runtime \<Rightarrow> store \<Rightarrow> string \<Rightarrow> string option \<Rightarrow> string option \<Rightarrow> string \<Rightarrow> instant
     \<Rightarrow> response \<times> store" where
  "redirectShortUrl rt st slug ipAddress user_agent eventId now =
     (if \<not> db_up st then (internal_error ''Failed to redirect short URL.'', st)
      else
        (case filter (\<lambda>r. su_slug r = slug) (short_urls st) of
           [] \<Rightarrow> (not_found ''Short URL not found.'', st)
         | shortUrl # others \<Rightarrow>
             let st1 = st\<lparr>short_urls :=
                            map (\<lambda>r. if su_id r = su_id shortUrl
                                      then r\<lparr>su_click_count := su_click_count r + 1\<rparr> else r)
                                (short_urls st)\<rparr>
             in (case filter (\<lambda>k. ak_app_id k = su_app_id shortUrl \<and> \<not> ak_is_revoked k)
                        (api_keys st1) of
                   [] \<Rightarrow> (redirect (su_original_url shortUrl), st1)
                 | apiKey # rest \<Rightarrow>
                     (case insert_event st1
                             \<lparr>ev_id = eventId, ev_app_id = su_app_id shortUrl,
                              ev_api_key_id = ak_id apiKey,
                              ev_event_name = ''short_url_click'',
                              ev_user_id =
                                ''anonymous_''
                                  @ (case ipAddress of None \<Rightarrow> ''null'' | Some a \<Rightarrow> a),
                              ev_session_id = None, ev_device_type = None,
                              ev_device_model = None, ev_os_name = None,
                              ev_os_version = None, ev_browser_name = None,
                              ev_browser_version = None,
                              ev_ip_address = ipAddress,
                              ev_user_agent = present user_agent,
                              ev_properties = Some (json_click rt slug (su_id shortUrl)),
                              ev_timestamp = now, ev_created_at = now\<rparr> of
                        None \<Rightarrow> (internal_error ''Failed to redirect short URL.'', st1)
                      | Some st2 \<Rightarrow> (redirect (su_original_url shortUrl), st2)))))"

section \<open>Event ingestion and queries (controllers/analytics.controller.js)\<close>

text \<open>
  The JSON body of a collect request: the ten members the handler destructures, and
  \<open>cb_rest\<close>, every other member the client sent, by name.
\<close>

record collect_body =
  cb_event_name :: "string option"
  cb_user_id :: "string option"
  cb_session_id :: "string option"
  cb_device_type :: "string option"
  cb_device_model :: "string option"
  cb_os_name :: "string option"
  cb_os_version :: "string option"
  cb_browser_name :: "string option"
  cb_browser_version :: "string option"
  cb_properties :: "string option"
  cb_rest :: "(string \<times> string) list"

text \<open>
  The row of the handler's \<open>INSERT\<close> (lines 48 to 71): \<open>ctx\<close> is \<open>req.app\<close>,
  \<open>event_name\<close> and \<open>user_id\<close> are the two required members of the body, \<open>ip\<close> is
  \<open>req.ip || req.connection.remoteAddress\<close>, \<open>eventId\<close> the value of \<open>genId()\<close> and
  \<open>now\<close> the value of \<open>NOW()\<close>. \<open>cb_properties\<close> holds \<open>JSON.stringify(properties)\<close>. The
  column \<open>created_at\<close> is not in the column list and takes its default, the current time.
\<close>

definition collect_row ::
  "runtime \<Rightarrow> auth_ctx \<Rightarrow> string \<Rightarrow> string \<Rightarrow> collect_body \<Rightarrow> string option \<Rightarrow> string option
     \<Rightarrow> string \<Rightarrow> instant \<Rightarrow> event_row" where
  "collect_row rt ctx event_name user_id b ip user_agent eventId now =
     \<lparr>ev_id = eventId, ev_app_id = ctx_id ctx,
      ev_api_key_id = ctx_apiKeyId ctx,
      ev_event_name = js_trim rt event_name, ev_user_id = js_trim rt user_id,
      ev_session_id = present (cb_session_id b),
      ev_device_type = present (cb_device_type b),
      ev_device_model = present (cb_device_model b),
      ev_os_name = present (cb_os_name b),
      ev_os_version = present (cb_os_version b),
      ev_browser_name = present (cb_browser_name b),
      ev_browser_version = present (cb_browser_version b),
      ev_ip_address = present ip,
      ev_user_agent = present user_agent,
      ev_properties = present (cb_properties b),
      ev_timestamp = now, ev_created_at = now\<rparr>"

text \<open>
  \<open>collectEvent rt st app b address user_agent eventId now\<close>: \<open>app\<close> is \<open>req.app\<close> and
  \<open>address\<close> what \<open>req.ip || req.connection.remoteAddress\<close> gives when the getter of
  \<open>req.ip\<close> returns. The handler reads \<open>req.ip\<close> inside its \<open>try\<close>, after \<open>getPool()\<close>
  and before the \<open>INSERT\<close>; a throwing getter ends in the \<open>catch\<close>. The Express
  application has no \<open>id\<close>, and the column \<open>app_id\<close> takes no missing value, so the
  \<open>INSERT\<close> fails when \<open>req.app\<close> is the application.
\<close>

definition collectEvent ::
  "runtime \<Rightarrow> store \<Rightarrow> req_app \<Rightarrow> collect_body \<Rightarrow> string option \<Rightarrow> string option \<Rightarrow> string
     \<Rightarrow> instant \<Rightarrow> response \<times> store" where
  "collectEvent rt st app b address user_agent eventId now =
     (case present (cb_event_name b) of
        None \<Rightarrow> (bad_request ''event_name is required and must be a non-empty string.'', st)
      | Some event_name \<Rightarrow>
          if js_trim rt event_name = [] then
            (bad_request ''event_name is required and must be a non-empty string.'', st)
          else
            (case present (cb_user_id b) of
               None \<Rightarrow> (bad_request ''user_id is required and must be a non-empty string.'', st)
             | Some user_id \<Rightarrow>
                 if js_trim rt user_id = [] then
                   (bad_request ''user_id is required and must be a non-empty string.'', st)
                 else if \<not> db_up st then (internal_error ''Failed to collect event.'', st)
                 else
                   (case req_ip app address of
                      Threw \<Rightarrow> (internal_error ''Failed to collect event.'', st)
                    | Returned ip \<Rightarrow>
                        (case app of
                           Express_application \<Rightarrow>
                             (internal_error ''Failed to collect event.'', st)
                         | Auth_context ctx \<Rightarrow>
                             (case insert_event st
                                     (collect_row rt ctx event_name user_id b ip user_agent
                                        eventId now) of
                                None \<Rightarrow> (internal_error ''Failed to collect event.'', st)
                              | Some st' \<Rightarrow> (created (Event_collected eventId), st'))))))"

text \<open>
  routes/analytics.routes.js: \<open>router.post('/collect', apiKeyAuth, collectEvent)\<close>.
  \<open>t_auth\<close> is the value of \<open>NOW()\<close> in the query of the middleware.
\<close>

definition collect_route ::
  "runtime \<Rightarrow> store \<Rightarrow> string option \<Rightarrow> instant \<Rightarrow> collect_body \<Rightarrow> string option
     \<Rightarrow> string option \<Rightarrow> string \<Rightarrow> instant \<Rightarrow> response \<times> store" where
  "collect_route rt st header t_auth b address user_agent eventId now =
     (case apiKeyAuth st header t_auth of
        Inl r \<Rightarrow> (r, st)
      | Inr ctx \<Rightarrow> collectEvent rt st (Auth_context ctx) b address user_agent eventId now)"

subsection \<open>Cache\<close>

text \<open>
  The cache client: its contents, and whether a read or a write throws. Expiry of
  entries is not modelled. \<open>getRedis()\<close> returns the client, or null (\<open>None\<close>) when the
  cache is not configured or unreachable.
\<close>

record redis =
  contents :: "string \<Rightarrow> string option"
  get_fails :: bool
  set_fails :: bool

definition redis_get :: "redis \<Rightarrow> string \<Rightarrow> string option outcome" where
  "redis_get r k = (if get_fails r then Threw else Returned (contents r k))"

definition redis_setEx :: "redis \<Rightarrow> string \<Rightarrow> int \<Rightarrow> string \<Rightarrow> redis outcome" where
  "redis_setEx r k ttl v =
     (if set_fails r then Threw else Returned (r\<lparr>contents := (contents r)(k \<mapsto> v)\<rparr>))"

text \<open>The I/O a handler performs, in order.\<close>

datatype io_event =
    Get_redis
  | Cache_get string
  | Get_pool
  | Db_execute
  | Cache_setEx string int string

subsection \<open>Event summary\<close>

record summary_query =
  sq_event :: "string option"
  sq_startDate :: "string option"
  sq_endDate :: "string option"
  sq_app_id :: "string option"

text \<open>
  Lines 105 to 114 of the handler: \<open>t_new_Date\<close> is the instant \<open>new Date()\<close> gives and
  \<open>t_Date_now\<close> the value of \<open>Date.now()\<close>. \<open>None\<close> is the bad-request answer for an
  invalid date.
\<close>

definition resolve_range ::
  "runtime \<Rightarrow> summary_query \<Rightarrow> instant \<Rightarrow> instant \<Rightarrow> (instant \<times> instant) option" where
  "resolve_range rt q t_new_Date t_Date_now =
     (let end = (case present (sq_endDate q) of
                   Some endDate \<Rightarrow> date_parse rt endDate
                 | None \<Rightarrow> Some t_new_Date);
          start = (case present (sq_startDate q) of
                     Some startDate \<Rightarrow> date_parse rt startDate
                   | None \<Rightarrow> Some (t_Date_now - 7 * 24 * 60 * 60 * 1000))
      in case (start, end) of
           (Some s, Some e) \<Rightarrow> Some (s, e)
         | _ \<Rightarrow> None)"

definition cache_key :: "runtime \<Rightarrow> string \<Rightarrow> string option \<Rightarrow> instant \<Rightarrow> instant \<Rightarrow> string" where
  "cache_key rt event app_id start end =
     ''event_summary:'' @ event @ '':'' @ (case app_id of None \<Rightarrow> ''all'' | Some a \<Rightarrow> a)
       @ '':'' @ to_iso rt start @ '':'' @ to_iso rt end"

text \<open>
  Lines 119 to 135: the cache read. A hit is a non-empty string that \<open>JSON.parse\<close>
  accepts; a throwing read, and a throwing \<open>JSON.parse\<close>, are caught and fall through
  to the store.
\<close>

definition cache_read :: "runtime \<Rightarrow> redis option \<Rightarrow> string \<Rightarrow> string option \<times> io_event list" where
  "cache_read rt redis key =
     (case redis of
        None \<Rightarrow> (None, [])
      | Some r \<Rightarrow>
          (case redis_get r key of
             Threw \<Rightarrow> (None, [Cache_get key])
           | Returned None \<Rightarrow> (None, [Cache_get key])
           | Returned (Some cached) \<Rightarrow>
               if cached \<noteq> [] \<and> json_ok rt cached then (Some cached, [Cache_get key])
               else (None, [Cache_get key])))"

text \<open>Lines 226 to 235: the cache write; a throwing write is caught.\<close>

definition cache_write ::
  "runtime \<Rightarrow> redis option \<Rightarrow> string \<Rightarrow> summary \<Rightarrow> redis option \<times> io_event list" where
  "cache_write rt redis key result =
     (case redis of
        None \<Rightarrow> (None, [])
      | Some r \<Rightarrow>
          (case redis_setEx r key (cache_ttl rt) (json_stringify rt result) of
             Threw \<Rightarrow> (Some r, [Cache_setEx key (cache_ttl rt) (json_stringify rt result)])
           | Returned r' \<Rightarrow>
               (Some r', [Cache_setEx key (cache_ttl rt) (json_stringify rt result)])))"

text \<open>The \<open>WHERE\<close> clause of both summary queries.\<close>

definition matching_events ::
  "store \<Rightarrow> string \<Rightarrow> string option \<Rightarrow> instant \<Rightarrow> instant \<Rightarrow> event_row list" where
  "matching_events st event app_id start end =
     filter (\<lambda>e. ev_event_name e = event
                 \<and> (case app_id of None \<Rightarrow> True | Some a \<Rightarrow> ev_app_id e = a)
                 \<and> start \<le> ev_timestamp e \<and> ev_timestamp e \<le> end)
       (events st)"

record group_row =
  g_total_count :: nat
  g_unique_users :: nat
  g_device_type :: "string option"
  g_device_count :: nat

text \<open>\<open>SELECT COUNT(*), COUNT(DISTINCT user_id), device_type, COUNT(*) ... GROUP BY device_type\<close>.\<close>

definition grouped_query :: "event_row list \<Rightarrow> group_row list" where
  "grouped_query es =
     map (\<lambda>d. let g = filter (\<lambda>e. ev_device_type e = d) es
              in \<lparr>g_total_count = length g,
                  g_unique_users = length (remdups (map ev_user_id g)),
                  g_device_type = d,
                  g_device_count = length g\<rparr>)
       (remdups (map ev_device_type es))"

text \<open>\<open>SELECT COUNT(DISTINCT user_id) as unique_users_count\<close>: always one row.\<close>

definition unique_users_query :: "event_row list \<Rightarrow> nat list" where
  "unique_users_query es = [length (remdups (map ev_user_id es))]"

text \<open>
  Lines 137 to 224: the two queries and the result object. The handler awaits two
  separate \<open>pool.execute\<close> calls, outside a transaction: \<open>st\<close> is the store when the
  grouped query runs and \<open>st'\<close> the store when the distinct-user query runs.
\<close>

definition summary_result ::
  "runtime \<Rightarrow> store \<Rightarrow> store \<Rightarrow> string \<Rightarrow> string option \<Rightarrow> instant \<Rightarrow> instant \<Rightarrow> summary" where
  "summary_result rt st st' event app_id start end =
     (let rows = grouped_query (matching_events st event app_id start end);
          totalCount = foldl (\<lambda>sum row. sum + g_total_count row) 0 rows;
          uniqueRows = unique_users_query (matching_events st' event app_id start end);
          uniqueUsersCount = (case uniqueRows of [] \<Rightarrow> 0 | c # _ \<Rightarrow> c);
          deviceBreakdown =
            map (\<lambda>row. (case present (g_device_type row) of
                           None \<Rightarrow> ''unknown'' | Some d \<Rightarrow> d,
                         g_device_count row)) rows
      in \<lparr>s_event_name = event, s_app_id = app_id,
          s_range_start = to_iso rt start, s_range_end = to_iso rt end,
          s_total_count = totalCount, s_unique_users = uniqueUsersCount,
          s_device_breakdown = deviceBreakdown\<rparr>)"

text \<open>
  \<open>eventSummary rt redis st st' q t_new_Date t_Date_now\<close> returns the response, the I/O
  performed and the cache client afterwards; \<open>st\<close> and \<open>st'\<close> are the store at the first
  and at the second query.
\<close>

definition eventSummary ::
  "runtime \<Rightarrow> redis option \<Rightarrow> store \<Rightarrow> store \<Rightarrow> summary_query \<Rightarrow> instant \<Rightarrow> instant
     \<Rightarrow> response \<times> io_event list \<times> redis option" where
  "eventSummary rt redis st st' q t_new_Date t_Date_now =
     (case present (sq_event q) of
        None \<Rightarrow> (bad_request ''event query parameter is required.'', [], redis)
      | Some event \<Rightarrow>
          (case resolve_range rt q t_new_Date t_Date_now of
             None \<Rightarrow>
               (bad_request
                  ''Invalid date format. Use ISO 8601 format (YYYY-MM-DD or YYYY-MM-DDTHH:mm:ss).'',
                [], redis)
           | Some (start, end) \<Rightarrow>
               let app_id = present (sq_app_id q);
                   cacheKey = cache_key rt event app_id start end
               in (case cache_read rt redis cacheKey of
                     (Some cached, io1) \<Rightarrow> (ok (Cached_summary cached), Get_redis # io1, redis)
                   | (None, io1) \<Rightarrow>
                       if \<not> db_up st then
                         (internal_error ''Failed to retrieve event summary.'',
                          Get_redis # io1 @ [Get_pool], redis)
                       else if \<not> db_up st' then
                         (internal_error ''Failed to retrieve event summary.'',
                          Get_redis # io1 @ [Get_pool, Db_execute, Db_execute], redis)
                       else
                         let result = summary_result rt st st' event app_id start end
                         in (case cache_write rt redis cacheKey result of
                               (redis', io2) \<Rightarrow>
                                 (ok (Fresh_summary result),
                                  Get_redis # io1 @ [Get_pool, Db_execute, Db_execute] @ io2,
                                  redis')))))"

subsection \<open>User statistics\<close>

record user_stats_query =
  uq_user_id :: "string option"
  uq_app_id :: "string option"

definition user_events :: "store \<Rightarrow> string \<Rightarrow> string option \<Rightarrow> event_row list" where
  "user_events st user_id app_id =
     filter (\<lambda>e. ev_user_id e = user_id
                 \<and> (case app_id of None \<Rightarrow> True | Some a \<Rightarrow> ev_app_id e = a))
       (events st)"

record ip_group_row =
  ig_total_events :: nat
  ig_first_seen :: instant
  ig_last_seen :: instant
  ig_ip_address :: "string option"

text \<open>
  \<open>SELECT COUNT(*), MIN(timestamp), MAX(timestamp), ip_address ... GROUP BY ip_address
  ORDER BY last_seen DESC LIMIT 1\<close>. As for the key list, rows that tie in the sort key
  stay in the order the model built them.
\<close>

definition ip_groups :: "event_row list \<Rightarrow> ip_group_row list" where
  "ip_groups es =
     map (\<lambda>ip. let g = filter (\<lambda>e. ev_ip_address e = ip) es
               in \<lparr>ig_total_events = length g,
                   ig_first_seen = Min (set (map ev_timestamp g)),
                   ig_last_seen = Max (set (map ev_timestamp g)),
                   ig_ip_address = ip\<rparr>)
       (remdups (map ev_ip_address es))"

definition top_ip_group :: "event_row list \<Rightarrow> ip_group_row list" where
  "top_ip_group es = take 1 (sort_key (\<lambda>g. - ig_last_seen g) (ip_groups es))"

text \<open>\<open>SELECT event_name, timestamp, properties ... ORDER BY timestamp DESC LIMIT 10\<close>.\<close>

definition recent_rows :: "event_row list \<Rightarrow> event_row list" where
  "recent_rows es = take 10 (sort_key (\<lambda>e. - ev_timestamp e) es)"

text \<open>
  \<open>event.properties ? JSON.parse(event.properties) : null\<close> for one row:
  \<open>ev_properties\<close> is the JSON text the column holds (\<open>None\<close> for \<open>NULL\<close>), and what the
  handler sees is the value the driver decoded from it. A throwing \<open>JSON.parse\<close> ends in
  the handler's \<open>catch\<close>. In the response the parsed value is represented by its text.
\<close>

definition recent_properties :: "runtime \<Rightarrow> event_row \<Rightarrow> string option outcome" where
  "recent_properties rt e =
     (case ev_properties e of None \<Rightarrow> Returned None | Some p \<Rightarrow> reparse rt p)"

definition properties_parse :: "runtime \<Rightarrow> event_row \<Rightarrow> bool" where
  "properties_parse rt e = (recent_properties rt e \<noteq> Threw)"

definition to_recent_event :: "runtime \<Rightarrow> event_row \<Rightarrow> recent_event" where
  "to_recent_event rt e =
     \<lparr>re_event_name = ev_event_name e, re_timestamp = ev_timestamp e,
      re_properties = (case recent_properties rt e of Returned v \<Rightarrow> v | Threw \<Rightarrow> None)\<rparr>"

definition userStats :: "runtime \<Rightarrow> store \<Rightarrow> user_stats_query \<Rightarrow> response" where
  "userStats rt st q =
     (case present (uq_user_id q) of
        None \<Rightarrow> bad_request ''user_id query parameter is required.''
      | Some user_id \<Rightarrow>
          if \<not> db_up st then internal_error ''Failed to retrieve user statistics.''
          else
            let app_id = present (uq_app_id q);
                rows = top_ip_group (user_events st user_id app_id)
            in (case rows of
                  [] \<Rightarrow> not_found ''No events found for this user.''
                | stats # _ \<Rightarrow>
                    let recentEvents = recent_rows (user_events st user_id app_id)
                    in if \<not> list_all (properties_parse rt) recentEvents then
                         internal_error ''Failed to retrieve user statistics.''
                       else
                         ok (User_stats
                               \<lparr>us_user_id = user_id, us_app_id = app_id,
                                us_total_events = ig_total_events stats,
                                us_first_seen = ig_first_seen stats,
                                us_last_seen = ig_last_seen stats,
                                us_ip_address = ig_ip_address stats,
                                us_recent_events =
                                  map (to_recent_event rt) recentEvents\<rparr>)))"

section \<open>Routing (index.js and routes/*.js)\<close>

text \<open>
  A request path is the list of its segments, the pieces between the slashes:
  \<open>/api/auth/register\<close> is \<open>[api, auth, register]\<close>, \<open>/\<close> is the empty list, and a path
  that ends in a slash has a last, empty segment. Paths with a doubled slash are not
  modelled. \<open>resolve\<close> follows the order in which \<open>index.js\<close> mounts routers and
  routes, with the default prefix \<open>/api\<close>; a router that has no matching route passes the
  request on. The handlers are the targets of the registered routes. The middleware in
  front of the routes (headers, body parsing, rate limiter) is not modelled.
\<close>

datatype http_method = GET | POST | PUT | DELETE

datatype handler =
    H_health
  | H_registerApp
  | H_getApiKey
  | H_revokeKey
  | H_regenerateKey
  | H_collectEvent
  | H_eventSummary
  | H_createShortUrl
  | H_redirectShortUrl
  | H_root
  | H_docs
  | H_notFound

text \<open>
  The application and its routers run with the defaults of Express: letters match
  without regard to case, and a route matches with or without one trailing slash. The
  route paths of this repository are in lower case.
\<close>

definition lower_case :: "char \<Rightarrow> char" where
  "lower_case c =
     (if 65 \<le> (of_char c :: nat) \<and> (of_char c :: nat) \<le> 90
      then char_of ((of_char c :: nat) + 32) else c)"

definition unslash :: "string list \<Rightarrow> string list" where
  "unslash p = (if p \<noteq> [] \<and> last p = [] then butlast p else p)"

definition at_path :: "string list \<Rightarrow> string list \<Rightarrow> bool" where
  "at_path route p = (map (map lower_case) (unslash p) = route)"

text \<open>routes/auth.routes.js\<close>

definition auth_routes :: "http_method \<Rightarrow> string list \<Rightarrow> handler option" where
  "auth_routes m p =
     (if m = POST \<and> at_path [''register''] p then Some H_registerApp
      else if m = GET \<and> at_path [''api-key''] p then Some H_getApiKey
      else if m = POST \<and> at_path [''revoke''] p then Some H_revokeKey
      else if m = POST \<and> at_path [''regenerate''] p then Some H_regenerateKey
      else None)"

text \<open>
  routes/analytics.routes.js: two routes are registered; the line that would register
  \<open>/user-stats\<close> is commented out.
\<close>

definition analytics_routes :: "http_method \<Rightarrow> string list \<Rightarrow> handler option" where
  "analytics_routes m p =
     (if m = POST \<and> at_path [''collect''] p then Some H_collectEvent
      else if m = GET \<and> at_path [''event-summary''] p then Some H_eventSummary
      else None)"

text \<open>routes/shorturl.routes.js; \<open>/:slug\<close> matches one non-empty segment.\<close>

definition shorturl_routes :: "http_method \<Rightarrow> string list \<Rightarrow> handler option" where
  "shorturl_routes m p =
     (if m = POST \<and> at_path [''shorten''] p then Some H_createShortUrl
      else case unslash p of
             [slug] \<Rightarrow> if m = GET \<and> slug \<noteq> [] then Some H_redirectShortUrl else None
           | _ \<Rightarrow> None)"

text \<open>\<open>app.use(prefix, router)\<close>: the router sees the path behind the prefix.\<close>

definition mounted ::
  "string list \<Rightarrow> (http_method \<Rightarrow> string list \<Rightarrow> handler option) \<Rightarrow> http_method \<Rightarrow> string list
     \<Rightarrow> handler option" where
  "mounted pre router m path =
     (if map (map lower_case) (take (length pre) path) = pre
      then router m (drop (length pre) path) else None)"

definition resolve :: "http_method \<Rightarrow> string list \<Rightarrow> handler" where
  "resolve m path =
     (if m = GET \<and> at_path [''health''] path then H_health
      else case mounted [''api'', ''auth''] auth_routes m path of
        Some h \<Rightarrow> h
      | None \<Rightarrow>
      (case mounted [''api'', ''analytics''] analytics_routes m path of
        Some h \<Rightarrow> h
      | None \<Rightarrow>
      (case mounted [''api''] shorturl_routes m path of
        Some h \<Rightarrow> h
      | None \<Rightarrow>
      (case mounted [''s''] shorturl_routes m path of
        Some h \<Rightarrow> h
      | None \<Rightarrow>
          if m = GET \<and> unslash path = [] then H_root
          else if map (map lower_case) (take 1 path) = [''docs'']
                  \<or> (m = GET \<and> at_path [''docs.json''] path) then H_docs
          else H_notFound))))"

text \<open>The 404 handler of \<open>index.js\<close>; \<open>shown\<close> is \<open>req.method\<close>, a space and \<open>req.path\<close>.\<close>

definition notFoundHandler :: "string \<Rightarrow> response" where
  "notFoundHandler shown = not_found (''Route '' @ shown @ '' not found'')"

section \<open>Store invariant\<close>

text \<open>
  What the schema and the handlers maintain on the two credential tables: application
  ids are distinct (primary key), every credential belongs to an existing application
  (foreign key), and every secret is the 64 hexadecimal characters \<open>genApiKey()\<close> makes.
\<close>

definition store_wf :: "store \<Rightarrow> bool" where
  "store_wf st =
     (distinct (map a_id (apps st))
      \<and> list_all (\<lambda>k. length (ak_api_key k) = 64 \<and> app_exists st (ak_app_id k)) (api_keys st))"

section \<open>Example data\<close>

definition app_shop :: app_row where
  "app_shop = \<lparr>a_id = ''app-1'', a_name = ''Shop'', a_description = None, a_created_at = 1000\<rparr>"

definition key_old :: api_key_row where
  "key_old = \<lparr>ak_id = ''key-1'', ak_app_id = ''app-1'', ak_api_key = ''00ff'',
     ak_is_revoked = True, ak_expires_at = None, ak_created_at = 1000, ak_revoked_at = Some 2000\<rparr>"

definition key_live :: api_key_row where
  "key_live = \<lparr>ak_id = ''key-2'', ak_app_id = ''app-1'', ak_api_key = ''11ee'',
     ak_is_revoked = False, ak_expires_at = None, ak_created_at = 2000, ak_revoked_at = None\<rparr>"

definition store_keys :: store where
  "store_keys = \<lparr>db_up = True, apps = [app_shop], api_keys = [key_old, key_live],
     events = [], short_urls = []\<rparr>"

definition body_with_timestamp :: collect_body where
  "body_with_timestamp = \<lparr>cb_event_name = Some ''page_view'', cb_user_id = Some ''u1'',
     cb_session_id = None, cb_device_type = Some ''mobile'', cb_device_model = None,
     cb_os_name = None, cb_os_version = None, cb_browser_name = None,
     cb_browser_version = None, cb_properties = None,
     cb_rest = [(''timestamp'', ''2020-01-01T00:00:00.000Z'')]\<rparr>"

definition example_event ::
  "string \<Rightarrow> string \<Rightarrow> string option \<Rightarrow> string option \<Rightarrow> instant \<Rightarrow> event_row" where
  "example_event i u ip d t =
     \<lparr>ev_id = i, ev_app_id = ''app-1'', ev_api_key_id = ''key-2'',
      ev_event_name = ''page_view'', ev_user_id = u, ev_session_id = None,
      ev_device_type = d, ev_device_model = None, ev_os_name = None, ev_os_version = None,
      ev_browser_name = None, ev_browser_version = None, ev_ip_address = ip,
      ev_user_agent = None, ev_properties = None, ev_timestamp = t, ev_created_at = t\<rparr>"

definition store_events :: store where
  "store_events = \<lparr>db_up = True, apps = [app_shop], api_keys = [key_old, key_live],
     events = [example_event ''e1'' ''u1'' (Some ''10.0.0.1'') (Some ''mobile'') 1704067100000,
               example_event ''e2'' ''u1'' (Some ''10.0.0.2'') None 1704067150000,
               example_event ''e3'' ''u2'' (Some ''10.0.0.3'') (Some ''mobile'') 1704067190000],
     short_urls = []\<rparr>"

text \<open>
  A runtime for the examples. Its \<open>js_trim\<close> is \<open>String.prototype.trim\<close> on strings whose
  white space is ASCII; it knows one date, one JSON text, and decoded properties that
  \<open>JSON.parse\<close> rejects; its \<open>json_click\<close> is \<open>JSON.stringify\<close> on strings that need
  no escaping.
\<close>

definition quoted :: "string \<Rightarrow> string" where
  "quoted s = CHR 0x22 # s @ [CHR 0x22]"

definition ascii_space :: "char \<Rightarrow> bool" where
  "ascii_space c = (c \<in> set [CHR '' '', CHR 0x09, CHR 0x0A, CHR 0x0B, CHR 0x0C, CHR 0x0D])"

definition trim_ascii :: "string \<Rightarrow> string" where
  "trim_ascii s = rev (dropWhile ascii_space (rev (dropWhile ascii_space s)))"

definition rt_example :: runtime where
  "rt_example =
     \<lparr>js_trim = trim_ascii,
      date_parse = (\<lambda>s. if s = ''2024-01-01'' then Some 1704067200000 else None),
      to_iso = (\<lambda>t. if t = 1704067200000 then ''2024-01-01T00:00:00.000Z'' else ''other''),
      json_ok = (\<lambda>s. s = ''{}''),
      json_stringify = (\<lambda>r. ''{}''),
      json_click = (\<lambda>slug sid. ''{'' @ quoted ''slug'' @ '':'' @ quoted slug @ '',''
                                 @ quoted ''short_url_id'' @ '':'' @ quoted sid @ ''}''),
      reparse = (\<lambda>p. Threw),
      cache_ttl = 300\<rparr>"

definition query_page_views :: summary_query where
  "query_page_views = \<lparr>sq_event = Some ''page_view'', sq_startDate = None, sq_endDate = None,
     sq_app_id = None\<rparr>"

definition redis_broken :: redis where
  "redis_broken = \<lparr>contents = (\<lambda>k. None), get_fails = True, set_fails = True\<rparr>"

definition query_bad_start :: summary_query where
  "query_bad_start = \<lparr>sq_event = Some ''page_view'', sq_startDate = Some ''yesterday'',
     sq_endDate = None, sq_app_id = None\<rparr>"

definition query_signup :: summary_query where
  "query_signup = \<lparr>sq_event = Some ''signup'', sq_startDate = None,
     sq_endDate = Some ''2024-01-01'', sq_app_id = Some ''app-1''\<rparr>"

definition random_bytes_example :: "byte list" where
  "random_bytes_example = replicate 16 0xA5 @ replicate 16 0x3C"

definition empty_store :: store where
  "empty_store = \<lparr>db_up = True, apps = [], api_keys = [], events = [], short_urls = []\<rparr>"

definition store_issued :: store where
  "store_issued =
     snd (regenerateKey
            (snd (registerApp rt_example empty_store
                    \<lparr>rb_name = Some ''Shop'', rb_description = None\<rparr>
                    ''app-1'' ''key-1'' (replicate 32 0x11) 1000))
            (Some ''app-1'') ''key-2'' random_bytes_example 2000)"

definition query_user_u1 :: user_stats_query where
  "query_user_u1 = \<lparr>uq_user_id = Some ''u1'', uq_app_id = None\<rparr>"

text \<open>
  A store with a short link, made by the shorten route on \<open>store_issued\<close>, and the same
  store after one redirect of that link, made by \<open>redirectShortUrl\<close>: the click is
  counted and the event \<open>click_event\<close> is written.
\<close>

definition store_linked :: store where
  "store_linked =
     snd (shorten_route rt_example (\<lambda>u. True) store_issued
            (Some (genApiKey random_bytes_example)) 3000
            \<lparr>sb_url = Some ''https://example.com/a'', sb_slug = Some ''promo''\<rparr>
            [0xDE, 0xAD, 0xBE, 0xEF] ''su-1'' ''http'' ''localhost:3000'')"

definition store_clicked :: store where
  "store_clicked =
     snd (redirectShortUrl rt_example store_linked ''promo'' (Some ''10.0.0.9'') None ''ev-9''
            1704067199000)"

definition click_event :: event_row where
  "click_event =
     \<lparr>ev_id = ''ev-9'', ev_app_id = ''app-1'', ev_api_key_id = ''key-2'',
      ev_event_name = ''short_url_click'', ev_user_id = ''anonymous_10.0.0.9'',
      ev_session_id = None, ev_device_type = None, ev_device_model = None,
      ev_os_name = None, ev_os_version = None, ev_browser_name = None,
      ev_browser_version = None, ev_ip_address = Some ''10.0.0.9'', ev_user_agent = None,
      ev_properties =
        Some (''{'' @ quoted ''slug'' @ '':'' @ quoted ''promo'' @ '','' @ quoted ''short_url_id''
                @ '':'' @ quoted ''su-1'' @ ''}''),
      ev_timestamp = 1704067199000, ev_created_at = 1704067199000\<rparr>"

definition query_clicks :: summary_query where
  "query_clicks = \<lparr>sq_event = Some ''short_url_click'', sq_startDate = None,
     sq_endDate = None, sq_app_id = None\<rparr>"

section \<open>Properties\<close>

lemma length_base64url: "length (base64url bs) = (4 * length bs + 2) div 3"
  by (induction bs rule: base64url.induct) simp_all

lemma length_to_hex: "length (to_hex bs) = 2 * length bs"
  by (induction bs) (simp_all add: to_hex_def hex_byte_def)

lemmas resp_defs =
  bad_request_def unauthorized_def not_found_def conflict_def internal_error_def ok_def
  created_def

subsection \<open>Short links\<close>

lemma insert_short_url_Some:
  "insert_short_url st r = Some st' \<Longrightarrow> short_urls st' = short_urls st @ [r]"
  by (auto simp: insert_short_url_def split: if_splits)

lemma createShortUrl_generated_slug_length:
  assumes "present (sb_slug b) = None" and "length random_bytes = 4"
  shows "short_urls (snd (createShortUrl rt url_ok st app b random_bytes new_id proto host))
           = short_urls st
       \<or> (\<exists>row. short_urls (snd (createShortUrl rt url_ok st app b random_bytes new_id
                                    proto host))
                    = short_urls st @ [row]
                \<and> length (su_slug row) = 6)"
  using assms
  by (auto simp: createShortUrl_def Let_def req_protocol_def length_base64url
           split: option.splits req_app.splits dest!: insert_short_url_Some)

text \<open>
  Behind \<open>apiKeyAuth\<close> the handler never answers 201: where the row is stored, reading
  \<open>req.protocol\<close> throws.
\<close>

lemma shorten_route_never_created:
  "status (fst (shorten_route rt url_ok st header t_auth b random_bytes new_id proto host))
     \<noteq> 201"
proof (cases "apiKeyAuth st header t_auth")
  case (Inl r)
  then have "status r = 401 \<or> status r = 500"
    by (auto simp: apiKeyAuth_def resp_defs split: option.splits if_splits list.splits)
  with Inl show ?thesis by (auto simp: shorten_route_def)
next
  case (Inr ctx)
  then show ?thesis
    by (simp add: shorten_route_def createShortUrl_def Let_def req_protocol_def resp_defs
          split: option.splits)
qed

text \<open>
  C2. The claim says that a short link created without a slug gets a random slug of 8
  characters. The handler takes \<open>crypto.randomBytes(4)\<close>, encodes the four bytes as
  base64url and keeps at most the first 8 characters; four bytes encode to 6 characters,
  so the slug it stores has 6 characters. Here the request carries a valid credential, a
  valid url and no slug, the random bytes are DE AD BE EF, and the slug stored is
  \<open>3q2-7w\<close>. The request is answered 500, with the row stored: the handler reads
  \<open>req.protocol\<close> for the response after the \<open>INSERT\<close>.
\<close>

theorem createShortUrl_generated_slug_example:
  "map su_slug
     (short_urls
        (snd (shorten_route rt_example (\<lambda>u. True) store_issued
                (Some (genApiKey random_bytes_example)) 3000
                \<lparr>sb_url = Some ''https://example.com/a'', sb_slug = None\<rparr>
                [0xDE, 0xAD, 0xBE, 0xEF] ''su-1'' ''http'' ''localhost:3000'')))
     = [''3q2-7w'']
   \<and> length ''3q2-7w'' = 6
   \<and> fst (shorten_route rt_example (\<lambda>u. True) store_issued
            (Some (genApiKey random_bytes_example)) 3000
            \<lparr>sb_url = Some ''https://example.com/a'', sb_slug = None\<rparr>
            [0xDE, 0xAD, 0xBE, 0xEF] ''su-1'' ''http'' ''localhost:3000'')
       = internal_error ''Failed to create short URL.''"
  by code_simp

subsection \<open>Event ingestion\<close>

text \<open>
  Under Express the handler stores nothing: behind \<open>apiKeyAuth\<close> reading \<open>req.ip\<close>
  throws, and without the middleware \<open>req.app\<close> has no \<open>id\<close>.
\<close>

lemma collectEvent_stores_nothing:
  "snd (collectEvent rt st app b address ua eid now) = st"
  by (simp add: collectEvent_def req_ip_def split: option.splits req_app.splits)

lemma collect_route_stores_nothing:
  "snd (collect_route rt st header t_auth b address ua eid now) = st"
  by (simp add: collect_route_def collectEvent_stores_nothing split: sum.splits)

lemma collect_row_cb_rest:
  "collect_row rt ctx n u (b\<lparr>cb_rest := x\<rparr>) ip ua eid now
     = collect_row rt ctx n u b ip ua eid now"
  by (simp add: collect_row_def)

lemma collectEvent_cb_rest:
  "collectEvent rt st a (b\<lparr>cb_rest := x\<rparr>) address ua eid now
     = collectEvent rt st a b address ua eid now"
  by (simp add: collectEvent_def collect_row_cb_rest
        split: option.splits outcome.splits req_app.splits)

lemma insert_event_Some:
  "insert_event st r = Some st' \<Longrightarrow> events st' = events st @ [r]"
  by (auto simp: insert_event_def split: if_splits)

lemma redirectShortUrl_events:
  "events (snd (redirectShortUrl rt st slug ip ua eid now)) = events st
   \<or> (\<exists>row. events (snd (redirectShortUrl rt st slug ip ua eid now)) = events st @ [row]
             \<and> ev_timestamp row = now)"
  by (auto simp: redirectShortUrl_def Let_def split: list.splits option.splits
           dest!: insert_event_Some)

text \<open>
  C3, as amended. The timestamp of a stored event is not client-controllable. The
  collect handler reads no timestamp from the request body: the members of the body
  that it does not destructure change neither what the route answers nor the row of the
  \<open>INSERT\<close>. The timestamp of that row is the insertion time (\<open>NOW()\<close>), and that row is
  the only thing the handler can add to the events. The other writer of events, the
  redirect of a short link, adds at most one event, and its timestamp is the insertion
  time as well.
\<close>

theorem collectEvent_timestamp_not_from_body:
  "collect_route rt st header t_auth (b\<lparr>cb_rest := x\<rparr>) address ua eid now
     = collect_route rt st header t_auth b address ua eid now
   \<and> collect_row rt ctx event_name user_id (b\<lparr>cb_rest := x\<rparr>) ip ua eid now
       = collect_row rt ctx event_name user_id b ip ua eid now
   \<and> ev_timestamp (collect_row rt ctx event_name user_id b ip ua eid now) = now
   \<and> (events (snd (collectEvent rt st app b address ua eid now)) = events st
       \<or> (\<exists>c n u i. events (snd (collectEvent rt st app b address ua eid now))
                      = events st @ [collect_row rt c n u b i ua eid now]))
   \<and> (events (snd (redirectShortUrl rt st slug ipAddress ua eid now)) = events st
       \<or> (\<exists>row. events (snd (redirectShortUrl rt st slug ipAddress ua eid now))
                    = events st @ [row]
                 \<and> ev_timestamp row = now))"
proof -
  have route: "collect_route rt st header t_auth (b\<lparr>cb_rest := x\<rparr>) address ua eid now
                 = collect_route rt st header t_auth b address ua eid now"
    by (simp add: collect_route_def collectEvent_cb_rest split: sum.splits)
  have row: "collect_row rt ctx event_name user_id (b\<lparr>cb_rest := x\<rparr>) ip ua eid now
               = collect_row rt ctx event_name user_id b ip ua eid now"
    by (rule collect_row_cb_rest)
  have stamp: "ev_timestamp (collect_row rt ctx event_name user_id b ip ua eid now) = now"
    by (simp add: collect_row_def)
  have "events (snd (collectEvent rt st app b address ua eid now)) = events st"
    by (simp add: collectEvent_stores_nothing)
  with route row stamp redirectShortUrl_events [of rt st slug ipAddress ua eid now]
  show ?thesis by simp
qed

text \<open>
  C3 as stated fails: a collect request with a valid credential whose body carries a
  \<open>timestamp\<close> member for the first of January 2020 is answered 500 and leaves the store
  as it was; that timestamp is not persisted.
\<close>

theorem collect_route_drops_body_timestamp:
  "map_of (cb_rest body_with_timestamp) ''timestamp'' = Some ''2020-01-01T00:00:00.000Z''
   \<and> apiKeyAuth store_issued (Some (genApiKey random_bytes_example)) 3000
       = Inr \<lparr>ctx_id = ''app-1'', ctx_apiKeyId = ''key-2'', ctx_name = ''Shop''\<rparr>
   \<and> fst (collect_route rt_example store_issued (Some (genApiKey random_bytes_example)) 3000
            body_with_timestamp (Some ''10.0.0.7'') None ''ev-1'' 1700000000000)
       = internal_error ''Failed to collect event.''
   \<and> events (snd (collect_route rt_example store_issued
                     (Some (genApiKey random_bytes_example)) 3000
                     body_with_timestamp (Some ''10.0.0.7'') None ''ev-1'' 1700000000000))
       = []"
  by code_simp

subsection \<open>Credential lifecycle\<close>

text \<open>
  C10. For a revoke call with a (non-empty) \<open>api_key_id\<close>, the database available: the answer
  is 404 exactly when no credential row has that id. When a row with that id is already
  revoked, the call answers 200, every row with that id is revoked afterwards and its
  \<open>revoked_at\<close> is the time of this call: the \<open>UPDATE\<close> matches on the id alone.
\<close>

theorem revokeKey_not_found_iff_no_row:
  assumes "present p = Some kid" and "db_up st"
  shows "(status (fst (revokeKey st p now)) = 404
            \<longleftrightarrow> (\<forall>k \<in> set (api_keys st). ak_id k \<noteq> kid))
       \<and> ((\<exists>k \<in> set (api_keys st). ak_id k = kid \<and> ak_is_revoked k) \<longrightarrow>
            fst (revokeKey st p now) = ok Revoked_ok
          \<and> map ak_id (api_keys (snd (revokeKey st p now))) = map ak_id (api_keys st)
          \<and> (\<forall>k' \<in> set (api_keys (snd (revokeKey st p now))).
                ak_id k' = kid \<longrightarrow> ak_is_revoked k' \<and> ak_revoked_at k' = Some now))"
proof -
  have len: "(length (filter (\<lambda>k. ak_id k = kid) (api_keys st)) = 0)
               = (\<forall>k \<in> set (api_keys st). ak_id k \<noteq> kid)"
    by (auto simp: filter_empty_conv)
  show ?thesis
    using assms len
    by (auto simp: revokeKey_def Let_def resp_defs revoke_row_def filter_empty_conv)
qed

theorem revokeKey_witness:
  "present (Some ''key-1'') = Some ''key-1'' \<and> db_up store_keys
   \<and> (\<exists>k \<in> set (api_keys store_keys). ak_id k = ''key-1'' \<and> ak_is_revoked k)
   \<and> fst (revokeKey store_keys (Some ''key-1'') 3000) = ok Revoked_ok
   \<and> map ak_id (api_keys (snd (revokeKey store_keys (Some ''key-1'') 3000)))
       = map ak_id (api_keys store_keys)"
proof -
  have p: "present (Some ''key-1'') = Some ''key-1''" by simp
  have u: "db_up store_keys" by (simp add: store_keys_def)
  have ex: "\<exists>k \<in> set (api_keys store_keys). ak_id k = ''key-1'' \<and> ak_is_revoked k"
    by (simp add: store_keys_def key_old_def)
  from revokeKey_not_found_iff_no_row [OF p u, of 3000] ex p u
  show ?thesis by blast
qed

subsection \<open>Event summary\<close>

lemma sum_group_sizes:
  "sum_list (map (\<lambda>d. length (filter (\<lambda>e. f e = d) es)) (remdups (map f es))) = length es"
proof -
  have cnt: "length (filter (\<lambda>e. f e = d) es) = count_list (map f es) d" for d
    by (induction es) auto
  have "sum_list (map (count_list (map f es)) (remdups (map f es)))
          = sum (count_list (map f es)) (set (map f es))"
    by (simp add: sum_list_distinct_conv_sum_set)
  also have "\<dots> = length (map f es)"
    by (rule sum_count_set) auto
  finally show ?thesis by (simp add: cnt)
qed

lemma foldl_add_sum_list: "foldl (\<lambda>sum row. sum + f row) (a::nat) rows = a + sum_list (map f rows)"
  by (induction rows arbitrary: a) auto

lemma summary_result_total:
  "s_total_count (summary_result rt st st' event app_id s e)
     = length (matching_events st event app_id s e)"
  by (simp add: summary_result_def grouped_query_def Let_def foldl_add_sum_list o_def
        sum_group_sizes)

lemma summary_result_breakdown_sum:
  "sum_list (map snd (s_device_breakdown (summary_result rt st st' event app_id s e)))
     = length (matching_events st event app_id s e)"
  by (simp add: summary_result_def grouped_query_def Let_def o_def sum_group_sizes)

lemma summary_result_unique:
  "s_unique_users (summary_result rt st st' event app_id s e)
     = card (ev_user_id ` set (matching_events st' event app_id s e))"
  by (simp add: summary_result_def unique_users_query_def Let_def length_remdups_card_conv)

lemma summary_result_unique_le_total:
  assumes "events st' = events st"
  shows "s_unique_users (summary_result rt st st' event app_id s e)
           \<le> s_total_count (summary_result rt st st' event app_id s e)"
proof -
  have same: "matching_events st' event app_id s e = matching_events st event app_id s e"
    by (simp add: matching_events_def assms)
  have "length (remdups (map ev_user_id (matching_events st event app_id s e)))
          \<le> length (matching_events st event app_id s e)"
    by (metis length_map length_remdups_leq)
  then show ?thesis
    unfolding summary_result_total
    by (simp add: summary_result_def unique_users_query_def Let_def same)
qed

lemma eventSummary_fresh_is_summary_result:
  assumes "body (fst (eventSummary rt redis st st' q t1 t2)) = Fresh_summary res"
  shows "\<exists>event s e. present (sq_event q) = Some event \<and> resolve_range rt q t1 t2 = Some (s, e)
           \<and> res = summary_result rt st st' event (present (sq_app_id q)) s e"
  using assms
  by (auto simp: eventSummary_def Let_def resp_defs split: option.splits prod.splits if_splits)

text \<open>
  C4, as amended. In every freshly computed event-summary response, \<open>total_count\<close> is
  the sum of the \<open>count\<close> fields of \<open>device_breakdown\<close>. When no event is written
  between the handler's two queries, \<open>unique_users\<close> is at most \<open>total_count\<close>.
\<close>

theorem eventSummary_totals_consistent:
  assumes "body (fst (eventSummary rt redis st st' q t1 t2)) = Fresh_summary res"
  shows "s_total_count res = sum_list (map snd (s_device_breakdown res))
       \<and> (events st' = events st \<longrightarrow> s_unique_users res \<le> s_total_count res)"
proof -
  from eventSummary_fresh_is_summary_result [OF assms]
  obtain event s e where res: "res = summary_result rt st st' event (present (sq_app_id q)) s e"
    by blast
  have "s_total_count res = sum_list (map snd (s_device_breakdown res))"
    by (simp add: res summary_result_total summary_result_breakdown_sum)
  moreover have "events st' = events st \<longrightarrow> s_unique_users res \<le> s_total_count res"
    unfolding res using summary_result_unique_le_total by blast
  ultimately show ?thesis by simp
qed

theorem eventSummary_totals_witness:
  "body (fst (eventSummary rt_example None store_clicked store_clicked query_clicks
                1704067200000 1704067200000))
     = Fresh_summary
            \<lparr>s_event_name = ''short_url_click'', s_app_id = None,
             s_range_start = ''other'', s_range_end = ''2024-01-01T00:00:00.000Z'',
             s_total_count = 1, s_unique_users = 1,
             s_device_breakdown = [(''unknown'', 1)]\<rparr>
   \<and> events store_clicked = [click_event]
   \<and> (1::nat) = sum_list (map snd [(''unknown'', 1::nat)]) \<and> (1::nat) \<le> 1"
proof -
  have h: "body (fst (eventSummary rt_example None store_clicked store_clicked query_clicks
                1704067200000 1704067200000))
     = Fresh_summary
            \<lparr>s_event_name = ''short_url_click'', s_app_id = None,
             s_range_start = ''other'', s_range_end = ''2024-01-01T00:00:00.000Z'',
             s_total_count = 1, s_unique_users = 1,
             s_device_breakdown = [(''unknown'', 1)]\<rparr>"
    by code_simp
  have e: "events store_clicked = [click_event]" by code_simp
  from eventSummary_totals_consistent [OF h] h e show ?thesis by simp
qed

text \<open>
  C4 as stated fails. A redirect of the link \<open>promo\<close> is answered 302 and writes one
  \<open>short_url_click\<close> event. The summary of \<open>short_url_click\<close> events whose grouped
  query ran before that write and whose distinct-user query ran after it reports
  \<open>total_count = 0\<close> and \<open>unique_users = 1\<close>.
\<close>

theorem eventSummary_unique_exceeds_total:
  "fst (redirectShortUrl rt_example store_linked ''promo'' (Some ''10.0.0.9'') None ''ev-9''
          1704067199000)
     = redirect ''https://example.com/a''
   \<and> events store_linked = []
   \<and> events store_clicked = [click_event]
   \<and> fst (eventSummary rt_example None store_linked store_clicked query_clicks
            1704067200000 1704067200000)
       = ok (Fresh_summary
              \<lparr>s_event_name = ''short_url_click'', s_app_id = None,
               s_range_start = ''other'', s_range_end = ''2024-01-01T00:00:00.000Z'',
               s_total_count = 0, s_unique_users = 1, s_device_breakdown = []\<rparr>)"
  by code_simp

lemma resolve_range_end_default:
  "present (sq_endDate q) = None \<Longrightarrow> resolve_range rt q t1 t2 = Some (s, e) \<Longrightarrow> e = t1"
  by (auto simp: resolve_range_def Let_def split: option.splits)

lemma resolve_range_start_default:
  "present (sq_startDate q) = None \<Longrightarrow> resolve_range rt q t1 t2 = Some (s, e)
     \<Longrightarrow> s = t2 - 604800000"
  by (auto simp: resolve_range_def Let_def split: option.splits)

lemma resolve_range_invalid:
  "(present (sq_startDate q) = Some sd \<and> date_parse rt sd = None)
     \<or> (present (sq_endDate q) = Some ed \<and> date_parse rt ed = None)
   \<Longrightarrow> resolve_range rt q t1 t2 = None"
  by (auto simp: resolve_range_def Let_def split: option.splits)

text \<open>
  C7. When \<open>endDate\<close> is omitted (absent or empty) the resolved end is the instant
  \<open>new Date()\<close> gives; when \<open>startDate\<close> is omitted the resolved start is \<open>Date.now()\<close>
  minus seven days; the resolved instants are the range of a fresh response. When a
  supplied \<open>startDate\<close> or \<open>endDate\<close> does not parse, the answer is 400, no I/O has been
  performed and the cache client is untouched.
\<close>

theorem eventSummary_date_range:
  "(present (sq_endDate q) = None \<and> resolve_range rt q t1 t2 = Some (s, e) \<longrightarrow> e = t1)
   \<and> (present (sq_startDate q) = None \<and> resolve_range rt q t1 t2 = Some (s, e)
        \<longrightarrow> s = t2 - 7 * 24 * 60 * 60 * 1000)
   \<and> (resolve_range rt q t1 t2 = Some (s, e)
        \<and> body (fst (eventSummary rt redis st st' q t1 t2)) = Fresh_summary res
        \<longrightarrow> s_range_start res = to_iso rt s \<and> s_range_end res = to_iso rt e)
   \<and> ((present (sq_startDate q) = Some sd \<and> date_parse rt sd = None)
        \<or> (present (sq_endDate q) = Some ed \<and> date_parse rt ed = None)
        \<longrightarrow> status (fst (eventSummary rt redis st st' q t1 t2)) = 400
          \<and> fst (snd (eventSummary rt redis st st' q t1 t2)) = []
          \<and> snd (snd (eventSummary rt redis st st' q t1 t2)) = redis)"
proof -
  have a: "present (sq_endDate q) = None \<and> resolve_range rt q t1 t2 = Some (s, e) \<longrightarrow> e = t1"
    using resolve_range_end_default by blast
  have b: "present (sq_startDate q) = None \<and> resolve_range rt q t1 t2 = Some (s, e)
        \<longrightarrow> s = t2 - 7 * 24 * 60 * 60 * 1000"
    using resolve_range_start_default [of q rt t1 t2 s e] by simp
  have c: "resolve_range rt q t1 t2 = Some (s, e)
        \<and> body (fst (eventSummary rt redis st st' q t1 t2)) = Fresh_summary res
        \<longrightarrow> s_range_start res = to_iso rt s \<and> s_range_end res = to_iso rt e"
    using eventSummary_fresh_is_summary_result [of rt redis st st' q t1 t2 res]
    by (auto simp: summary_result_def Let_def)
  have d: "(present (sq_startDate q) = Some sd \<and> date_parse rt sd = None)
        \<or> (present (sq_endDate q) = Some ed \<and> date_parse rt ed = None)
        \<longrightarrow> status (fst (eventSummary rt redis st st' q t1 t2)) = 400
          \<and> fst (snd (eventSummary rt redis st st' q t1 t2)) = []
          \<and> snd (snd (eventSummary rt redis st st' q t1 t2)) = redis"
  proof
    assume "(present (sq_startDate q) = Some sd \<and> date_parse rt sd = None)
        \<or> (present (sq_endDate q) = Some ed \<and> date_parse rt ed = None)"
    then have "resolve_range rt q t1 t2 = None" by (rule resolve_range_invalid)
    then show "status (fst (eventSummary rt redis st st' q t1 t2)) = 400
          \<and> fst (snd (eventSummary rt redis st st' q t1 t2)) = []
          \<and> snd (snd (eventSummary rt redis st st' q t1 t2)) = redis"
      by (simp add: eventSummary_def resp_defs split: option.splits)
  qed
  from a b c d show ?thesis by blast
qed

lemma range_example:
  "resolve_range rt_example query_page_views 1704067200000 1704067200123
     = Some (1703462400123, 1704067200000)"
  by code_simp

theorem eventSummary_date_range_witness:
  "present (sq_endDate query_page_views) = None
   \<and> present (sq_startDate query_page_views) = None
   \<and> resolve_range rt_example query_page_views 1704067200000 1704067200123
       = Some (1704067200123 - 7 * 24 * 60 * 60 * 1000, 1704067200000)
   \<and> body (fst (eventSummary rt_example None store_events store_events query_page_views
                   1704067200000 1704067200123))
       = Fresh_summary
            \<lparr>s_event_name = ''page_view'', s_app_id = None,
             s_range_start = to_iso rt_example 1703462400123,
             s_range_end = to_iso rt_example 1704067200000,
             s_total_count = 3, s_unique_users = 2,
             s_device_breakdown = [(''unknown'', 1), (''mobile'', 2)]\<rparr>
   \<and> present (sq_startDate query_bad_start) = Some ''yesterday''
   \<and> date_parse rt_example ''yesterday'' = None
   \<and> status (fst (eventSummary rt_example (Some redis_broken) store_events store_events query_bad_start
                     1704067200000 1704067200123)) = 400
   \<and> fst (snd (eventSummary rt_example (Some redis_broken) store_events store_events query_bad_start
                     1704067200000 1704067200123)) = []"
proof -
  have e: "present (sq_endDate query_page_views) = None"
    and s: "present (sq_startDate query_page_views) = None"
    by (simp_all add: query_page_views_def)
  have r: "resolve_range rt_example query_page_views 1704067200000 1704067200123
     = Some (1703462400123, 1704067200000)"
    by (rule range_example)
  have f: "body (fst (eventSummary rt_example None store_events store_events query_page_views
                   1704067200000 1704067200123))
       = Fresh_summary
            \<lparr>s_event_name = ''page_view'', s_app_id = None,
             s_range_start = to_iso rt_example 1703462400123,
             s_range_end = to_iso rt_example 1704067200000,
             s_total_count = 3, s_unique_users = 2,
             s_device_breakdown = [(''unknown'', 1), (''mobile'', 2)]\<rparr>"
    by code_simp
  have b: "present (sq_startDate query_bad_start) = Some ''yesterday''"
    by (simp add: query_bad_start_def)
  have p: "date_parse rt_example ''yesterday'' = None"
    by (simp add: rt_example_def)
  note good = eventSummary_date_range
      [where q = query_page_views and rt = rt_example and ?t1.0 = 1704067200000
         and ?t2.0 = 1704067200123 and s = 1703462400123 and e = 1704067200000
         and redis = None and st = store_events and st' = store_events]
  note bad = eventSummary_date_range
      [where q = query_bad_start and rt = rt_example and sd = "''yesterday''"
         and redis = "Some redis_broken" and st = store_events and st' = store_events
         and ?t1.0 = 1704067200000 and ?t2.0 = 1704067200123]
  from good bad e s r f b p show ?thesis by simp
qed

text \<open>
  C9. A valid event-summary request, the database available, with no cache hit and no
  matching event in the store (at either query), is answered 200 with \<open>total_count = 0\<close>, \<open>unique_users = 0\<close> and an
  empty \<open>device_breakdown\<close>, flagged \<open>cached: false\<close>.
\<close>

theorem eventSummary_no_events_is_empty_success:
  assumes "present (sq_event q) = Some event"
    and "resolve_range rt q t1 t2 = Some (s, e)"
    and "db_up st" and "db_up st'"
    and "fst (cache_read rt redis (cache_key rt event (present (sq_app_id q)) s e)) = None"
    and "matching_events st event (present (sq_app_id q)) s e = []"
    and "matching_events st' event (present (sq_app_id q)) s e = []"
  shows "fst (eventSummary rt redis st st' q t1 t2)
           = ok (Fresh_summary
                  \<lparr>s_event_name = event, s_app_id = present (sq_app_id q),
                   s_range_start = to_iso rt s, s_range_end = to_iso rt e,
                   s_total_count = 0, s_unique_users = 0, s_device_breakdown = []\<rparr>)
       \<and> status (fst (eventSummary rt redis st st' q t1 t2)) = 200"
  using assms
  by (auto simp: eventSummary_def Let_def summary_result_def grouped_query_def
        unique_users_query_def ok_def split: prod.splits option.splits)

theorem eventSummary_no_events_witness:
  "present (sq_event query_signup) = Some ''signup''
   \<and> resolve_range rt_example query_signup 1704067200500 1704067200500
       = Some (1703462400500, 1704067200000)
   \<and> db_up store_events
   \<and> fst (cache_read rt_example (Some redis_broken)
             (cache_key rt_example ''signup'' (present (sq_app_id query_signup))
                1703462400500 1704067200000)) = None
   \<and> matching_events store_events ''signup'' (present (sq_app_id query_signup))
        1703462400500 1704067200000 = []
   \<and> fst (eventSummary rt_example (Some redis_broken) store_events store_events query_signup
             1704067200500 1704067200500)
       = ok (Fresh_summary
              \<lparr>s_event_name = ''signup'', s_app_id = Some ''app-1'',
               s_range_start = ''other'', s_range_end = ''2024-01-01T00:00:00.000Z'',
               s_total_count = 0, s_unique_users = 0, s_device_breakdown = []\<rparr>)"
proof -
  have a: "present (sq_event query_signup) = Some ''signup''"
    by (simp add: query_signup_def)
  have b: "resolve_range rt_example query_signup 1704067200500 1704067200500
       = Some (1703462400500, 1704067200000)"
    by code_simp
  have c: "db_up store_events" by (simp add: store_events_def)
  have d: "fst (cache_read rt_example (Some redis_broken)
             (cache_key rt_example ''signup'' (present (sq_app_id query_signup))
                1703462400500 1704067200000)) = None"
    by (simp add: cache_read_def redis_get_def redis_broken_def)
  have e: "matching_events store_events ''signup'' (present (sq_app_id query_signup))
        1703462400500 1704067200000 = []"
    by code_simp
  have i: "to_iso rt_example 1703462400500 = ''other''"
       "to_iso rt_example 1704067200000 = ''2024-01-01T00:00:00.000Z''"
       "present (sq_app_id query_signup) = Some ''app-1''"
    by (simp_all add: rt_example_def query_signup_def)
  from eventSummary_no_events_is_empty_success [OF a b c c d e e] a b c d e i
  show ?thesis by simp
qed

lemma cache_read_failing: "get_fails r \<Longrightarrow> fst (cache_read rt (Some r) key) = None"
  by (simp add: cache_read_def redis_get_def)

lemma cache_read_empty:
  "fst (cache_read rt (Some (r\<lparr>get_fails := False, contents := (\<lambda>k. None)\<rparr>)) key) = None"
  by (simp add: cache_read_def redis_get_def)

lemma eventSummary_on_miss:
  assumes "present (sq_event q) = Some event"
    and "resolve_range rt q t1 t2 = Some (s, e)"
    and "fst (cache_read rt redis (cache_key rt event (present (sq_app_id q)) s e)) = None"
  shows "fst (eventSummary rt redis st st' q t1 t2)
           = (if db_up st \<and> db_up st'
              then ok (Fresh_summary (summary_result rt st st' event (present (sq_app_id q)) s e))
              else internal_error ''Failed to retrieve event summary.'')"
    and "db_up st \<Longrightarrow> Db_execute \<in> set (fst (snd (eventSummary rt redis st st' q t1 t2)))"
  using assms
  by (auto simp: eventSummary_def Let_def split: prod.splits option.splits)

lemma eventSummary_read_failure_like_miss:
  assumes "get_fails r"
  shows "fst (eventSummary rt (Some r) st st' q t1 t2)
           = fst (eventSummary rt (Some (r\<lparr>get_fails := False, contents := (\<lambda>k. None)\<rparr>))
                    st st' q t1 t2)"
proof (cases "present (sq_event q)")
  case None
  then show ?thesis by (simp add: eventSummary_def)
next
  case (Some event)
  show ?thesis
  proof (cases "resolve_range rt q t1 t2")
    case None
    with Some show ?thesis by (simp add: eventSummary_def)
  next
    case (Some se)
    obtain s e where se: "se = (s, e)" by (cases se)
    from \<open>present (sq_event q) = Some event\<close> Some se assms show ?thesis
      by (simp add: eventSummary_on_miss(1) cache_read_failing cache_read_empty)
  qed
qed

text \<open>
  C6. For a valid event-summary request, the database available: when the cache read
  throws, or the read misses and the cache write throws, the response is 200 with the
  freshly computed summary and \<open>cached: false\<close>, and the store has been queried. A
  throwing read gives the same response as a working cache that holds nothing.
\<close>

theorem eventSummary_cache_failures_swallowed:
  assumes "present (sq_event q) = Some event"
    and "resolve_range rt q t1 t2 = Some (s, e)"
    and "db_up st" and "db_up st'"
    and "get_fails r
         \<or> (fst (cache_read rt (Some r) (cache_key rt event (present (sq_app_id q)) s e)) = None
            \<and> set_fails r)"
  shows "fst (eventSummary rt (Some r) st st' q t1 t2)
           = ok (Fresh_summary (summary_result rt st st' event (present (sq_app_id q)) s e))
       \<and> Db_execute \<in> set (fst (snd (eventSummary rt (Some r) st st' q t1 t2)))
       \<and> (get_fails r \<longrightarrow>
            fst (eventSummary rt (Some r) st st' q t1 t2)
              = fst (eventSummary rt
                       (Some (r\<lparr>get_fails := False, contents := (\<lambda>k. None)\<rparr>)) st st' q t1 t2))"
proof -
  from assms(5)
  have miss: "fst (cache_read rt (Some r) (cache_key rt event (present (sq_app_id q)) s e))
                = None"
    using cache_read_failing by blast
  from eventSummary_on_miss [OF assms(1) assms(2) miss, of st st'] assms(3) assms(4)
  have "fst (eventSummary rt (Some r) st st' q t1 t2)
           = ok (Fresh_summary (summary_result rt st st' event (present (sq_app_id q)) s e))"
    and "Db_execute \<in> set (fst (snd (eventSummary rt (Some r) st st' q t1 t2)))"
    by simp_all
  then show ?thesis
    using eventSummary_read_failure_like_miss by blast
qed

theorem eventSummary_cache_failures_witness:
  "present (sq_event query_page_views) = Some ''page_view''
   \<and> resolve_range rt_example query_page_views 1704067200000 1704067200123
       = Some (1703462400123, 1704067200000)
   \<and> db_up store_events
   \<and> get_fails redis_broken \<and> set_fails redis_broken
   \<and> fst (eventSummary rt_example (Some redis_broken) store_events store_events query_page_views
             1704067200000 1704067200123)
       = ok (Fresh_summary
               (summary_result rt_example store_events store_events ''page_view''
                  (present (sq_app_id query_page_views)) 1703462400123 1704067200000))
   \<and> Db_execute \<in> set (fst (snd (eventSummary rt_example (Some redis_broken) store_events
                                     store_events query_page_views
                                     1704067200000 1704067200123)))"
proof -
  have a: "present (sq_event query_page_views) = Some ''page_view''"
    by (simp add: query_page_views_def)
  have b: "resolve_range rt_example query_page_views 1704067200000 1704067200123
       = Some (1703462400123, 1704067200000)"
    by (rule range_example)
  have c: "db_up store_events" by (simp add: store_events_def)
  have d: "get_fails redis_broken" "set_fails redis_broken"
    by (simp_all add: redis_broken_def)
  from d have d': "get_fails redis_broken
         \<or> (fst (cache_read rt_example (Some redis_broken)
                   (cache_key rt_example ''page_view'' (present (sq_app_id query_page_views))
                      1703462400123 1704067200000)) = None
            \<and> set_fails redis_broken)"
    by simp
  from eventSummary_cache_failures_swallowed [OF a b c c d'] a b c d
  show ?thesis by simp
qed

subsection \<open>Regeneration and authentication\<close>

lemma filter_join_by_key:
  "filter (\<lambda>r. Q (fst r)) (keys_join_apps st)
     = keys_join_apps (st\<lparr>api_keys := filter Q (api_keys st)\<rparr>)"
proof -
  have inner: "filter (\<lambda>r. Q (fst r)) [(k, a). a \<leftarrow> as, ak_app_id k = a_id a]
                 = (if Q k then [(k, a). a \<leftarrow> as, ak_app_id k = a_id a] else [])" for k as
    by (induction as) auto
  have "filter (\<lambda>r. Q (fst r)) [(k, a). k \<leftarrow> ks, a \<leftarrow> as, ak_app_id k = a_id a]
          = [(k, a). k \<leftarrow> filter Q ks, a \<leftarrow> as, ak_app_id k = a_id a]" for ks as
  proof (induction ks)
    case Nil
    show ?case by simp
  next
    case (Cons k ks)
    then show ?case using inner [of k as] by simp
  qed
  then show ?thesis by (simp add: keys_join_apps_def)
qed

lemma join_single_key:
  "keys_join_apps (st\<lparr>api_keys := [k]\<rparr>)
     = map (Pair k) (filter (\<lambda>a. a_id a = ak_app_id k) (apps st))"
proof -
  have "[(k, a). a \<leftarrow> as, ak_app_id k = a_id a]
          = map (Pair k) (filter (\<lambda>a. a_id a = ak_app_id k) as)" for as
    by (induction as) auto
  then show ?thesis by (simp add: keys_join_apps_def)
qed

lemma revoke_row_api_key [simp]: "ak_api_key (revoke_row now k) = ak_api_key k"
  by (simp add: revoke_row_def)

lemma genApiKey_length: "length (genApiKey bs) = 2 * length bs"
  by (simp add: genApiKey_def length_to_hex)

lemma revoke_active_keys: "map ak_api_key (revoke_active app_id now ks) = map ak_api_key ks"
  by (induction ks) (simp_all add: revoke_active_def revoke_row_def)

lemma revoke_active_ids: "map ak_id (revoke_active app_id now ks) = map ak_id ks"
  by (induction ks) (simp_all add: revoke_active_def revoke_row_def)

lemma revoke_active_none_left:
  "filter (\<lambda>k. ak_app_id k = app_id \<and> \<not> ak_is_revoked k) (revoke_active app_id now ks) = []"
  by (induction ks) (simp_all add: revoke_active_def revoke_row_def)

lemma regenerateKey_success:
  assumes "present p = Some app_id"
    and "regenerateKey st p new_id random_bytes now = (r, st')"
    and "status r = 200"
  shows "db_up st"
    and "r = ok (Regenerated (genApiKey random_bytes))"
    and "insert_api_key (st\<lparr>api_keys := revoke_active app_id now (api_keys st)\<rparr>)
           \<lparr>ak_id = new_id, ak_app_id = app_id, ak_api_key = genApiKey random_bytes,
            ak_is_revoked = False, ak_expires_at = None, ak_created_at = now,
            ak_revoked_at = None\<rparr> = Some st'"
proof -
  show up: "db_up st"
  proof (rule ccontr)
    assume "\<not> db_up st"
    with assms(1) have "regenerateKey st p new_id random_bytes now
                          = (internal_error ''Failed to regenerate API key.'', st)"
      by (simp add: regenerateKey_def)
    with assms(2,3) show False by (auto simp: resp_defs)
  qed
  let ?ins = "insert_api_key (st\<lparr>api_keys := revoke_active app_id now (api_keys st)\<rparr>)
           \<lparr>ak_id = new_id, ak_app_id = app_id, ak_api_key = genApiKey random_bytes,
            ak_is_revoked = False, ak_expires_at = None, ak_created_at = now,
            ak_revoked_at = None\<rparr>"
  have eq: "regenerateKey st p new_id random_bytes now
          = (case ?ins of None \<Rightarrow> (internal_error ''Failed to regenerate API key.'', st)
             | Some st2 \<Rightarrow> (ok (Regenerated (genApiKey random_bytes)), st2))"
    using assms(1) up by (simp add: regenerateKey_def Let_def revoke_active_def)
  have "r = ok (Regenerated (genApiKey random_bytes)) \<and> ?ins = Some st'"
  proof (cases ?ins)
    case None
    with eq assms(2) have "r = internal_error ''Failed to regenerate API key.''" by simp
    with assms(3) show ?thesis by (simp add: resp_defs)
  next
    case (Some st2)
    with eq assms(2) show ?thesis by simp
  qed
  then show "r = ok (Regenerated (genApiKey random_bytes))" and "?ins = Some st'"
    by simp_all
qed

lemma insert_api_key_Some:
  assumes "insert_api_key st k = Some st'"
  shows "st' = st\<lparr>api_keys := api_keys st @ [k]\<rparr>"
    and "ak_id k \<notin> set (map ak_id (api_keys st))"
    and "ak_api_key k \<notin> set (map ak_api_key (api_keys st))"
    and "ak_app_id k \<in> set (map a_id (apps st))"
  using assms by (simp_all add: insert_api_key_def app_exists_def split: if_splits)

lemma first_app_with_id:
  assumes "x \<in> set (map a_id as)"
  shows "\<exists>a rest. filter (\<lambda>a. a_id a = x) as = a # rest \<and> a \<in> set as \<and> a_id a = x"
proof (cases "filter (\<lambda>a. a_id a = x) as")
  case Nil
  with assms show ?thesis by (auto simp: filter_empty_conv)
next
  case (Cons a rest)
  have "a \<in> set (filter (\<lambda>a. a_id a = x) as)" unfolding Cons by simp
  then have "a \<in> set as" and "a_id a = x" by simp_all
  with Cons show ?thesis by blast
qed

lemma apiKeyAuth_single_match:
  assumes "db_up st" and "key \<noteq> []"
    and "filter (\<lambda>k. ak_api_key k = key \<and> key_usable t k) (api_keys st) = [new]"
    and "filter (\<lambda>a. a_id a = ak_app_id new) (apps st) = a # rest"
  shows "apiKeyAuth st (Some key) t
           = Inr \<lparr>ctx_id = ak_app_id new, ctx_apiKeyId = ak_id new, ctx_name = a_name a\<rparr>"
proof -
  have "filter (\<lambda>(k, a). ak_api_key k = key \<and> key_usable t k) (keys_join_apps st)
          = filter (\<lambda>r. (\<lambda>k. ak_api_key k = key \<and> key_usable t k) (fst r)) (keys_join_apps st)"
    by (simp add: case_prod_unfold)
  also have "\<dots> = keys_join_apps (st\<lparr>api_keys := [new]\<rparr>)"
    using filter_join_by_key [of "\<lambda>k. ak_api_key k = key \<and> key_usable t k" st]
    by (simp add: assms(3))
  also have "\<dots> = map (Pair new) (a # rest)"
    using assms(4) by (simp add: join_single_key)
  finally show ?thesis
    using assms(1,2) by (simp add: apiKeyAuth_def)
qed

text \<open>
  C5. For a regenerate call with a (non-empty) application id that answers 200, that is,
  whose transaction commits: the table afterwards is the old table, with every
  previously active credential of the application revoked and the other rows unchanged,
  followed by exactly one new row; the new row is the only active credential of the
  application; the response carries the secret of the new row; that secret differs from
  the secret of every row issued before; and presenting it authenticates, at any time,
  as the application with the new credential's id.
\<close>

theorem regenerateKey_revokes_and_issues_one:
  assumes "present p = Some app_id"
    and "length random_bytes = 32"
    and "regenerateKey st p new_id random_bytes now = (r, st')"
    and "status r = 200"
  shows "r = ok (Regenerated (genApiKey random_bytes))
       \<and> (\<exists>new. api_keys st' = revoke_active app_id now (api_keys st) @ [new]
              \<and> ak_id new = new_id \<and> ak_app_id new = app_id
              \<and> ak_api_key new = genApiKey random_bytes \<and> \<not> ak_is_revoked new
              \<and> filter (\<lambda>k. ak_app_id k = app_id \<and> \<not> ak_is_revoked k) (api_keys st') = [new])
       \<and> (\<forall>k \<in> set (api_keys st). ak_api_key k \<noteq> genApiKey random_bytes)
       \<and> (\<forall>k \<in> set (api_keys st').
             ak_id k \<in> set (map ak_id (api_keys st)) \<and> ak_app_id k = app_id
               \<longrightarrow> ak_is_revoked k)
       \<and> (\<exists>a \<in> set (apps st'). a_id a = app_id
              \<and> (\<forall>t. apiKeyAuth st' (Some (genApiKey random_bytes)) t
                        = Inr \<lparr>ctx_id = app_id, ctx_apiKeyId = new_id, ctx_name = a_name a\<rparr>))"
proof -
  define old where "old = revoke_active app_id now (api_keys st)"
  define key where "key = genApiKey random_bytes"
  define new where
    "new = \<lparr>ak_id = new_id, ak_app_id = app_id, ak_api_key = key,
            ak_is_revoked = False, ak_expires_at = None, ak_created_at = now,
            ak_revoked_at = None\<rparr>"
  note ok = regenerateKey_success [OF assms(1) assms(3) assms(4)]
  have up: "db_up st" and r: "r = ok (Regenerated key)"
    using ok(1,2) by (simp_all add: key_def)
  have ins: "insert_api_key (st\<lparr>api_keys := old\<rparr>) new = Some st'"
    using ok(3) by (simp add: old_def new_def key_def)
  have st': "st' = st\<lparr>api_keys := old @ [new]\<rparr>"
    using insert_api_key_Some(1) [OF ins] by simp
  have fresh_id: "new_id \<notin> set (map ak_id (api_keys st))"
    using insert_api_key_Some(2) [OF ins] by (simp add: new_def old_def revoke_active_ids)
  have fresh_key: "key \<notin> set (map ak_api_key (api_keys st))"
    using insert_api_key_Some(3) [OF ins] by (simp add: new_def old_def revoke_active_keys)
  have app: "app_id \<in> set (map a_id (apps st))"
    using insert_api_key_Some(4) [OF ins] by (simp add: new_def)
  have old_none: "filter (\<lambda>k. ak_app_id k = app_id \<and> \<not> ak_is_revoked k) old = []"
    by (simp add: old_def revoke_active_none_left)
  have key_ne: "key \<noteq> []"
    using assms(2) genApiKey_length [of random_bytes] by (auto simp: key_def)
  have c2: "api_keys st' = old @ [new]
              \<and> ak_id new = new_id \<and> ak_app_id new = app_id
              \<and> ak_api_key new = key \<and> \<not> ak_is_revoked new
              \<and> filter (\<lambda>k. ak_app_id k = app_id \<and> \<not> ak_is_revoked k) (api_keys st') = [new]"
    using old_none by (simp add: st' new_def)
  have c3: "\<forall>k \<in> set (api_keys st). ak_api_key k \<noteq> key"
    using fresh_key by auto
  have c4: "\<forall>k \<in> set (api_keys st').
              ak_id k \<in> set (map ak_id (api_keys st)) \<and> ak_app_id k = app_id
                \<longrightarrow> ak_is_revoked k"
  proof (intro ballI impI)
    fix k assume k: "k \<in> set (api_keys st')"
      and h: "ak_id k \<in> set (map ak_id (api_keys st)) \<and> ak_app_id k = app_id"
    from k have "k \<in> set old \<or> k = new" by (auto simp: st')
    then show "ak_is_revoked k"
    proof
      assume "k \<in> set old"
      with old_none h show ?thesis by (simp add: filter_empty_conv)
    next
      assume "k = new"
      with h fresh_id show ?thesis by (simp add: new_def)
    qed
  qed
  from first_app_with_id [OF app]
  obtain a rest where a: "filter (\<lambda>a. a_id a = app_id) (apps st) = a # rest"
    and a_in: "a \<in> set (apps st)" and a_id: "a_id a = app_id"
    by blast
  have auth: "apiKeyAuth st' (Some key) t
                = Inr \<lparr>ctx_id = app_id, ctx_apiKeyId = new_id, ctx_name = a_name a\<rparr>" for t
  proof -
    have old_keys: "\<forall>k \<in> set old. ak_api_key k \<noteq> key"
      using fresh_key revoke_active_keys [of app_id now "api_keys st"]
      by (metis old_def image_eqI list.set_map)
    have sel: "filter (\<lambda>k. ak_api_key k = key \<and> key_usable t k) (api_keys st') = [new]"
      using old_keys by (simp add: st' filter_empty_conv new_def key_usable_def)
    have "apiKeyAuth st' (Some key) t
            = Inr \<lparr>ctx_id = ak_app_id new, ctx_apiKeyId = ak_id new, ctx_name = a_name a\<rparr>"
      by (rule apiKeyAuth_single_match [OF _ key_ne sel, where rest = rest])
         (simp_all add: st' up new_def a)
    then show ?thesis by (simp add: new_def)
  qed
  have c5: "\<exists>a \<in> set (apps st'). a_id a = app_id
              \<and> (\<forall>t. apiKeyAuth st' (Some key) t
                        = Inr \<lparr>ctx_id = app_id, ctx_apiKeyId = new_id, ctx_name = a_name a\<rparr>)"
    using a_in a_id auth by (intro bexI [of _ a]) (simp_all add: st')
  from c2 have c2': "\<exists>new. api_keys st' = old @ [new]
              \<and> ak_id new = new_id \<and> ak_app_id new = app_id
              \<and> ak_api_key new = key \<and> \<not> ak_is_revoked new
              \<and> filter (\<lambda>k. ak_app_id k = app_id \<and> \<not> ak_is_revoked k) (api_keys st') = [new]"
    by (rule exI [of _ new])
  from r c2' c3 c4 c5 show ?thesis
    unfolding key_def old_def by (intro conjI)
qed

theorem regenerateKey_witness:
  "present (Some ''app-1'') = Some ''app-1''
   \<and> length random_bytes_example = 32
   \<and> status (fst (regenerateKey store_keys (Some ''app-1'') ''key-3'' random_bytes_example 5000))
       = 200
   \<and> fst (regenerateKey store_keys (Some ''app-1'') ''key-3'' random_bytes_example 5000)
       = ok (Regenerated (genApiKey random_bytes_example))
   \<and> (\<exists>a \<in> set (apps (snd (regenerateKey store_keys (Some ''app-1'') ''key-3''
                               random_bytes_example 5000))).
         a_id a = ''app-1''
         \<and> (\<forall>t. apiKeyAuth (snd (regenerateKey store_keys (Some ''app-1'') ''key-3''
                                    random_bytes_example 5000))
                   (Some (genApiKey random_bytes_example)) t
                 = Inr \<lparr>ctx_id = ''app-1'', ctx_apiKeyId = ''key-3'', ctx_name = a_name a\<rparr>))"
proof -
  have p: "present (Some ''app-1'') = Some ''app-1''" by simp
  have l: "length random_bytes_example = 32" by (simp add: random_bytes_example_def)
  have e: "regenerateKey store_keys (Some ''app-1'') ''key-3'' random_bytes_example 5000
             = (fst (regenerateKey store_keys (Some ''app-1'') ''key-3'' random_bytes_example 5000),
                snd (regenerateKey store_keys (Some ''app-1'') ''key-3'' random_bytes_example 5000))"
    by simp
  have s: "status (fst (regenerateKey store_keys (Some ''app-1'') ''key-3''
                          random_bytes_example 5000)) = 200"
    by code_simp
  from regenerateKey_revokes_and_issues_one [OF p l e s] p l s show ?thesis by blast
qed

subsection \<open>Credential list\<close>

lemma sort_key_desc:
  "sorted_wrt (\<lambda>x y. f y \<le> f x) (sort_key (\<lambda>x. - f x) xs)" for f :: "'a \<Rightarrow> int"
proof -
  have "sorted (map (\<lambda>x. - f x) (sort_key (\<lambda>x. - f x) xs))" by (rule sorted_sort_key)
  then show ?thesis by (simp add: sorted_map)
qed

lemma join_one_app:
  assumes "distinct (map a_id as)" and "x \<in> set (map a_id as)"
  shows "\<exists>a. [(k, a). a \<leftarrow> as, x = a_id a] = [(k, a)]"
  using assms
proof (induction as)
  case Nil
  then show ?case by simp
next
  case (Cons b as)
  show ?case
  proof (cases "x = a_id b")
    case True
    with Cons.prems have "x \<notin> a_id ` set as" by simp
    then have "\<forall>a \<in> set as. a_id a \<noteq> x" by blast
    then have "[(k, a). a \<leftarrow> as, x = a_id a] = []"
      by (induction as) auto
    with True show ?thesis by simp
  next
    case False
    with Cons show ?thesis by simp
  qed
qed

lemma map_fst_join:
  assumes "distinct (map a_id as)" and "\<forall>k \<in> set ks. ak_app_id k \<in> set (map a_id as)"
  shows "map fst [(k, a). k \<leftarrow> ks, a \<leftarrow> as, ak_app_id k = a_id a] = ks"
  using assms(2)
proof (induction ks)
  case Nil
  then show ?case by simp
next
  case (Cons k ks)
  from join_one_app [OF assms(1), of "ak_app_id k" k] Cons.prems
  obtain a where "[(k, a). a \<leftarrow> as, ak_app_id k = a_id a] = [(k, a)]" by auto
  with Cons show ?case by simp
qed

lemma store_wf_join: "store_wf st \<Longrightarrow> map fst (keys_join_apps st) = api_keys st"
  unfolding keys_join_apps_def
  by (rule map_fst_join) (auto simp: store_wf_def list_all_iff app_exists_def)

lemma key_rows_mset:
  assumes "store_wf st"
  shows "mset (map fst (key_rows st app_id))
           = mset (filter (\<lambda>k. ak_app_id k = app_id) (api_keys st))"
proof -
  have "mset (map fst (key_rows st app_id))
          = mset (map fst (filter (\<lambda>r. ak_app_id (fst r) = app_id) (keys_join_apps st)))"
    by (simp add: key_rows_def)
  also have "\<dots> = mset (filter (\<lambda>k. ak_app_id k = app_id) (map fst (keys_join_apps st)))"
    by (simp add: filter_map o_def)
  finally show ?thesis by (simp add: store_wf_join [OF assms])
qed

lemma key_rows_sorted:
  "sorted_wrt (\<lambda>r r'. ak_created_at (fst r') \<le> ak_created_at (fst r)) (key_rows st app_id)"
  unfolding key_rows_def by (rule sort_key_desc)

lemma key_rows_member:
  assumes "store_wf st" and "r \<in> set (key_rows st app_id)"
  shows "fst r \<in> set (api_keys st)" and "ak_app_id (fst r) = app_id"
    and "length (ak_api_key (fst r)) = 64"
proof -
  from assms(2) have j: "r \<in> set (keys_join_apps st)" and a: "ak_app_id (fst r) = app_id"
    by (simp_all add: key_rows_def)
  from j have "fst r \<in> set (map fst (keys_join_apps st))" by (simp only: set_map) (rule imageI)
  then show k: "fst r \<in> set (api_keys st)" by (simp add: store_wf_join [OF assms(1)])
  show "ak_app_id (fst r) = app_id" by (rule a)
  from assms(1) k show "length (ak_api_key (fst r)) = 64"
    by (simp add: store_wf_def list_all_iff)
qed

lemma mask_row_hides_secret:
  assumes "length (ak_api_key (fst r)) = 64"
  shows "\<not> sublist (ak_api_key (fst r)) (mk_api_key (mask_row r))"
    and "\<not> ak_is_revoked (fst r)
           \<Longrightarrow> mk_api_key (mask_row r) = ''****'' @ drop 56 (ak_api_key (fst r))"
    and "ak_is_revoked (fst r) \<Longrightarrow> mk_api_key (mask_row r) = ''REVOKED''"
    and "length (drop 56 (ak_api_key (fst r))) = 8"
proof -
  have len: "length (mk_api_key (mask_row r)) \<le> 12"
    using assms by (cases r) (simp add: mask_row_def slice_last_def)
  show "\<not> sublist (ak_api_key (fst r)) (mk_api_key (mask_row r))"
  proof
    assume "sublist (ak_api_key (fst r)) (mk_api_key (mask_row r))"
    then have "length (ak_api_key (fst r)) \<le> length (mk_api_key (mask_row r))"
      by (rule sublist_length_le)
    with len assms show False by simp
  qed
  show "\<not> ak_is_revoked (fst r)
           \<Longrightarrow> mk_api_key (mask_row r) = ''****'' @ drop 56 (ak_api_key (fst r))"
    using assms by (cases r) (simp add: mask_row_def slice_last_def)
  show "ak_is_revoked (fst r) \<Longrightarrow> mk_api_key (mask_row r) = ''REVOKED''"
    by (cases r) (simp add: mask_row_def)
  show "length (drop 56 (ak_api_key (fst r))) = 8"
    using assms by simp
qed

text \<open>
  C8. On an available store that satisfies the store invariant, a credential-list call
  with a (non-empty) application id answers 200 with one entry for every credential row
  of that application, newest first by creation time. No entry's \<open>api_key\<close> field
  contains the secret of its row: for a credential that is not revoked the field is
  \<open>****\<close> followed by the last 8 characters of the secret, for a revoked one it is
  \<open>REVOKED\<close>.
\<close>

theorem getApiKey_lists_masked_newest_first:
  assumes "store_wf st" and "db_up st" and "present p = Some app_id"
  shows "getApiKey st p = ok (Key_list (map mask_row (key_rows st app_id)))
       \<and> mset (map fst (key_rows st app_id))
           = mset (filter (\<lambda>k. ak_app_id k = app_id) (api_keys st))
       \<and> sorted_wrt (\<lambda>r r'. ak_created_at (fst r') \<le> ak_created_at (fst r))
           (key_rows st app_id)
       \<and> (\<forall>r \<in> set (key_rows st app_id).
             mk_id (mask_row r) = ak_id (fst r)
           \<and> mk_created_at (mask_row r) = ak_created_at (fst r)
           \<and> \<not> sublist (ak_api_key (fst r)) (mk_api_key (mask_row r))
           \<and> (\<not> ak_is_revoked (fst r) \<longrightarrow>
                 mk_api_key (mask_row r) = ''****'' @ drop 56 (ak_api_key (fst r))
               \<and> length (drop 56 (ak_api_key (fst r))) = 8)
           \<and> (ak_is_revoked (fst r) \<longrightarrow> mk_api_key (mask_row r) = ''REVOKED''))"
proof -
  have a: "getApiKey st p = ok (Key_list (map mask_row (key_rows st app_id)))"
    using assms(2,3) by (simp add: getApiKey_def)
  have d: "\<forall>r \<in> set (key_rows st app_id).
             mk_id (mask_row r) = ak_id (fst r)
           \<and> mk_created_at (mask_row r) = ak_created_at (fst r)
           \<and> \<not> sublist (ak_api_key (fst r)) (mk_api_key (mask_row r))
           \<and> (\<not> ak_is_revoked (fst r) \<longrightarrow>
                 mk_api_key (mask_row r) = ''****'' @ drop 56 (ak_api_key (fst r))
               \<and> length (drop 56 (ak_api_key (fst r))) = 8)
           \<and> (ak_is_revoked (fst r) \<longrightarrow> mk_api_key (mask_row r) = ''REVOKED'')"
  proof
    fix r assume "r \<in> set (key_rows st app_id)"
    then have len: "length (ak_api_key (fst r)) = 64"
      by (rule key_rows_member(3) [OF assms(1)])
    have ids: "mk_id (mask_row r) = ak_id (fst r)"
      "mk_created_at (mask_row r) = ak_created_at (fst r)"
      by (cases r; simp add: mask_row_def)+
    from ids mask_row_hides_secret [OF len]
    show "mk_id (mask_row r) = ak_id (fst r)
           \<and> mk_created_at (mask_row r) = ak_created_at (fst r)
           \<and> \<not> sublist (ak_api_key (fst r)) (mk_api_key (mask_row r))
           \<and> (\<not> ak_is_revoked (fst r) \<longrightarrow>
                 mk_api_key (mask_row r) = ''****'' @ drop 56 (ak_api_key (fst r))
               \<and> length (drop 56 (ak_api_key (fst r))) = 8)
           \<and> (ak_is_revoked (fst r) \<longrightarrow> mk_api_key (mask_row r) = ''REVOKED'')"
      by blast
  qed
  from a key_rows_mset [OF assms(1)] key_rows_sorted d show ?thesis by blast
qed

lemma store_issued_list:
  "map mk_api_key (map mask_row (key_rows store_issued ''app-1'')) = [''****3c3c3c3c'', ''REVOKED'']"
  by code_simp

text \<open>The handlers that write to the store keep the invariant.\<close>

lemma store_wf_empty: "store_wf empty_store"
  by (simp add: store_wf_def empty_store_def)

lemma insert_app_wf:
  assumes "store_wf st" and "insert_app st a = Some st'"
  shows "store_wf st'"
proof -
  from assms(2) have st': "st' = st\<lparr>apps := apps st @ [a]\<rparr>"
    and fresh: "a_id a \<notin> set (map a_id (apps st))"
    by (simp_all add: insert_app_def split: if_splits)
  from assms(1) fresh show ?thesis
    by (auto simp: store_wf_def st' list_all_iff app_exists_def)
qed

lemma insert_api_key_wf:
  assumes "store_wf st" and "length (ak_api_key k) = 64" and "insert_api_key st k = Some st'"
  shows "store_wf st'"
proof -
  note i = insert_api_key_Some [OF assms(3)]
  from assms(1,2) i(4) show ?thesis
    by (auto simp: store_wf_def i(1) list_all_iff app_exists_def)
qed

lemma revoke_active_wf:
  "store_wf st \<Longrightarrow> store_wf (st\<lparr>api_keys := revoke_active app_id now (api_keys st)\<rparr>)"
  by (auto simp: store_wf_def list_all_iff app_exists_def revoke_active_def revoke_row_def)

lemma registerApp_wf:
  assumes "store_wf st" and "length random_bytes = 32"
  shows "store_wf (snd (registerApp rt st b appId apiKeyId random_bytes now))"
proof (cases "present (rb_name b)")
  case None
  with assms(1) show ?thesis by (simp add: registerApp_def)
next
  case (Some name)
  let ?app = "\<lparr>a_id = appId, a_name = js_trim rt name,
                a_description = present (rb_description b), a_created_at = now\<rparr>"
  let ?key = "\<lparr>ak_id = apiKeyId, ak_app_id = appId, ak_api_key = genApiKey random_bytes,
                ak_is_revoked = False, ak_expires_at = None,
                ak_created_at = now, ak_revoked_at = None\<rparr>"
  show ?thesis
  proof (cases "insert_app st ?app")
    case None
    with Some assms(1) show ?thesis by (simp add: registerApp_def)
  next
    case st1: (Some st1)
    from insert_app_wf [OF assms(1) st1] have wf1: "store_wf st1" .
    show ?thesis
    proof (cases "insert_api_key st1 ?key")
      case None
      with Some st1 assms(1) show ?thesis by (simp add: registerApp_def Let_def)
    next
      case st2: (Some st2)
      have "store_wf st2"
        by (rule insert_api_key_wf [OF wf1 _ st2]) (simp add: genApiKey_length assms(2))
      with Some st1 st2 assms(1) show ?thesis by (simp add: registerApp_def Let_def)
    qed
  qed
qed

lemma regenerateKey_wf:
  assumes "store_wf st" and "length random_bytes = 32"
  shows "store_wf (snd (regenerateKey st p new_id random_bytes now))"
proof (cases "present p")
  case None
  with assms(1) show ?thesis by (simp add: regenerateKey_def)
next
  case (Some app_id)
  let ?key = "\<lparr>ak_id = new_id, ak_app_id = app_id, ak_api_key = genApiKey random_bytes,
                ak_is_revoked = False, ak_expires_at = None,
                ak_created_at = now, ak_revoked_at = None\<rparr>"
  let ?st1 = "st\<lparr>api_keys := revoke_active app_id now (api_keys st)\<rparr>"
  show ?thesis
  proof (cases "insert_api_key ?st1 ?key")
    case None
    with Some assms(1) show ?thesis by (simp add: regenerateKey_def Let_def)
  next
    case st2: (Some st2)
    have "store_wf st2"
      by (rule insert_api_key_wf [OF revoke_active_wf [OF assms(1)] _ st2])
         (simp add: genApiKey_length assms(2))
    with Some st2 assms(1) show ?thesis by (simp add: regenerateKey_def Let_def)
  qed
qed

lemma revokeKey_wf:
  assumes "store_wf st"
  shows "store_wf (snd (revokeKey st p now))"
proof (cases "present p")
  case None
  with assms show ?thesis by (simp add: revokeKey_def)
next
  case (Some kid)
  have "store_wf (st\<lparr>api_keys := map (\<lambda>k. if ak_id k = kid then revoke_row now k else k)
                                   (api_keys st)\<rparr>)"
    using assms
    by (auto simp: store_wf_def list_all_iff app_exists_def revoke_row_def)
  with Some assms show ?thesis by (simp add: revokeKey_def Let_def)
qed

lemma collectEvent_wf:
  "store_wf st \<Longrightarrow> store_wf (snd (collectEvent rt st app b address ua eid now))"
  by (simp add: collectEvent_stores_nothing)

lemma createShortUrl_keeps_keys:
  "api_keys (snd (createShortUrl rt url_ok st app b random_bytes new_id proto host))
     = api_keys st
   \<and> apps (snd (createShortUrl rt url_ok st app b random_bytes new_id proto host)) = apps st"
  by (auto simp: createShortUrl_def insert_short_url_def Let_def
           split: option.splits req_app.splits outcome.splits)

lemma createShortUrl_wf:
  "store_wf st
   \<Longrightarrow> store_wf (snd (createShortUrl rt url_ok st app b random_bytes new_id proto host))"
  using createShortUrl_keeps_keys [of rt url_ok st app b random_bytes new_id proto host]
  by (simp add: store_wf_def app_exists_def)

lemma redirectShortUrl_keeps_keys:
  "api_keys (snd (redirectShortUrl rt st slug ip ua eid now)) = api_keys st
   \<and> apps (snd (redirectShortUrl rt st slug ip ua eid now)) = apps st"
  by (auto simp: redirectShortUrl_def insert_event_def Let_def
           split: option.splits list.splits if_splits)

lemma redirectShortUrl_wf:
  "store_wf st \<Longrightarrow> store_wf (snd (redirectShortUrl rt st slug ip ua eid now))"
  using redirectShortUrl_keeps_keys [of rt st slug ip ua eid now]
  by (simp add: store_wf_def app_exists_def)

theorem getApiKey_witness:
  "store_wf store_issued \<and> db_up store_issued \<and> present (Some ''app-1'') = Some ''app-1''
   \<and> getApiKey store_issued (Some ''app-1'')
       = ok (Key_list (map mask_row (key_rows store_issued ''app-1'')))
   \<and> map mk_api_key (map mask_row (key_rows store_issued ''app-1''))
       = [''****3c3c3c3c'', ''REVOKED'']
   \<and> map mk_id (map mask_row (key_rows store_issued ''app-1'')) = [''key-2'', ''key-1'']"
proof -
  have w: "store_wf store_issued"
    unfolding store_issued_def
    by (intro regenerateKey_wf registerApp_wf store_wf_empty)
       (simp_all add: random_bytes_example_def)
  have u: "db_up store_issued" by code_simp
  have p: "present (Some ''app-1'') = Some ''app-1''" by simp
  have l: "map mk_api_key (map mask_row (key_rows store_issued ''app-1''))
             = [''****3c3c3c3c'', ''REVOKED'']"
    by (rule store_issued_list)
  have i: "map mk_id (map mask_row (key_rows store_issued ''app-1'')) = [''key-2'', ''key-1'']"
    by code_simp
  from getApiKey_lists_masked_newest_first [OF w u p] w u p l i show ?thesis by blast
qed

subsection \<open>User statistics\<close>

lemma top_ip_group_empty: "top_ip_group [] = []"
  by (simp add: top_ip_group_def ip_groups_def)

lemma top_ip_group_nonempty:
  assumes "es \<noteq> []"
  shows "\<exists>stats rest. top_ip_group es = stats # rest"
proof -
  from assms have "remdups (map ev_ip_address es) \<noteq> []" by simp
  then have "ip_groups es \<noteq> []" by (simp add: ip_groups_def)
  then have "length (sort_key (\<lambda>g. - ig_last_seen g) (ip_groups es)) \<noteq> 0" by simp
  then have "length (top_ip_group es) \<noteq> 0" by (simp add: top_ip_group_def)
  then show ?thesis by (cases "top_ip_group es") simp_all
qed

lemma recent_rows_length: "length (recent_rows es) = min 10 (length es)"
  by (simp add: recent_rows_def min.commute)

lemma recent_rows_sorted:
  "sorted_wrt (\<lambda>a b. ev_timestamp b \<le> ev_timestamp a) (recent_rows es)"
  unfolding recent_rows_def by (rule sorted_wrt_take) (rule sort_key_desc)

lemma recent_rows_subset: "set (recent_rows es) \<subseteq> set es"
  unfolding recent_rows_def using set_take_subset [of 10 "sort_key (\<lambda>e. - ev_timestamp e) es"]
  by simp

lemma recent_events_sorted:
  "sorted_wrt (\<lambda>a b. re_timestamp b \<le> re_timestamp a) (map (to_recent_event rt) (recent_rows es))"
  using recent_rows_sorted [of es] by (simp add: sorted_wrt_map to_recent_event_def)

lemma userStats_no_events:
  assumes "present (uq_user_id q) = Some uid" and "db_up st"
    and "user_events st uid (present (uq_app_id q)) = []"
  shows "userStats rt st q = not_found ''No events found for this user.''"
  using assms by (simp add: userStats_def Let_def top_ip_group_empty)

lemma userStats_some_events:
  assumes "present (uq_user_id q) = Some uid" and "db_up st"
    and "user_events st uid (present (uq_app_id q)) \<noteq> []"
    and "list_all (properties_parse rt) (recent_rows (user_events st uid (present (uq_app_id q))))"
  shows "\<exists>us. userStats rt st q = ok (User_stats us)
           \<and> us_recent_events us
               = map (to_recent_event rt) (recent_rows (user_events st uid (present (uq_app_id q))))"
proof -
  from top_ip_group_nonempty [OF assms(3)]
  obtain stats rest where "top_ip_group (user_events st uid (present (uq_app_id q))) = stats # rest"
    by blast
  with assms(1,2,4)
  have eq: "userStats rt st q
              = ok (User_stats
                     \<lparr>us_user_id = uid, us_app_id = present (uq_app_id q),
                      us_total_events = ig_total_events stats,
                      us_first_seen = ig_first_seen stats,
                      us_last_seen = ig_last_seen stats,
                      us_ip_address = ig_ip_address stats,
                      us_recent_events =
                        map (to_recent_event rt)
                          (recent_rows (user_events st uid (present (uq_app_id q))))\<rparr>)"
    by (simp add: userStats_def Let_def)
  show ?thesis unfolding eq by (intro exI conjI) (rule refl, simp)
qed

text \<open>
  What the handler \<open>userStats\<close> does when it is called with a (non-empty) user id on an
  available store: it answers 404 when no event matches the user id (within the
  application, when an application id is given); when \<open>N > 0\<close> events match and the stored
  properties of the most recent ones parse, it answers 200 with \<open>recent_events\<close> holding
  \<open>min N 10\<close> of the matching events, most recent first. No route leads to the handler.
\<close>

lemma userStats_handler_behaviour:
  "resolve GET [''api'', ''analytics'', ''user-stats''] = H_notFound
   \<and> status (notFoundHandler ''GET /api/analytics/user-stats'') = 404
   \<and> (present (uq_user_id q) = Some uid \<and> db_up st
        \<and> user_events st uid (present (uq_app_id q)) = []
        \<longrightarrow> userStats rt st q = not_found ''No events found for this user.'')
   \<and> (present (uq_user_id q) = Some uid \<and> db_up st
        \<and> user_events st uid (present (uq_app_id q)) \<noteq> []
        \<and> list_all (properties_parse rt)
             (recent_rows (user_events st uid (present (uq_app_id q))))
        \<longrightarrow> (\<exists>us. userStats rt st q = ok (User_stats us)
               \<and> us_recent_events us
                   = map (to_recent_event rt)
                       (recent_rows (user_events st uid (present (uq_app_id q))))
               \<and> set (recent_rows (user_events st uid (present (uq_app_id q))))
                   \<subseteq> set (user_events st uid (present (uq_app_id q)))
               \<and> length (us_recent_events us)
                   = min 10 (length (user_events st uid (present (uq_app_id q))))
               \<and> sorted_wrt (\<lambda>a b. re_timestamp b \<le> re_timestamp a) (us_recent_events us)))"
proof -
  have a: "resolve GET [''api'', ''analytics'', ''user-stats''] = H_notFound"
    by code_simp
  have b: "status (notFoundHandler ''GET /api/analytics/user-stats'') = 404"
    by (simp add: notFoundHandler_def not_found_def)
  have c: "present (uq_user_id q) = Some uid \<and> db_up st
        \<and> user_events st uid (present (uq_app_id q)) = []
        \<longrightarrow> userStats rt st q = not_found ''No events found for this user.''"
    using userStats_no_events by blast
  have d: "present (uq_user_id q) = Some uid \<and> db_up st
        \<and> user_events st uid (present (uq_app_id q)) \<noteq> []
        \<and> list_all (properties_parse rt)
             (recent_rows (user_events st uid (present (uq_app_id q))))
        \<longrightarrow> (\<exists>us. userStats rt st q = ok (User_stats us)
               \<and> us_recent_events us
                   = map (to_recent_event rt)
                       (recent_rows (user_events st uid (present (uq_app_id q))))
               \<and> set (recent_rows (user_events st uid (present (uq_app_id q))))
                   \<subseteq> set (user_events st uid (present (uq_app_id q)))
               \<and> length (us_recent_events us)
                   = min 10 (length (user_events st uid (present (uq_app_id q))))
               \<and> sorted_wrt (\<lambda>a b. re_timestamp b \<le> re_timestamp a) (us_recent_events us))"
  proof
    assume h: "present (uq_user_id q) = Some uid \<and> db_up st
        \<and> user_events st uid (present (uq_app_id q)) \<noteq> []
        \<and> list_all (properties_parse rt)
             (recent_rows (user_events st uid (present (uq_app_id q))))"
    then obtain us where us: "userStats rt st q = ok (User_stats us)"
      "us_recent_events us
         = map (to_recent_event rt) (recent_rows (user_events st uid (present (uq_app_id q))))"
      using userStats_some_events [of q uid st rt] by blast
    have "length (us_recent_events us)
            = min 10 (length (user_events st uid (present (uq_app_id q))))"
      by (simp add: us(2) recent_rows_length)
    moreover have "sorted_wrt (\<lambda>a b. re_timestamp b \<le> re_timestamp a) (us_recent_events us)"
      unfolding us(2) by (rule recent_events_sorted)
    ultimately show "\<exists>us. userStats rt st q = ok (User_stats us)
               \<and> us_recent_events us
                   = map (to_recent_event rt)
                       (recent_rows (user_events st uid (present (uq_app_id q))))
               \<and> set (recent_rows (user_events st uid (present (uq_app_id q))))
                   \<subseteq> set (user_events st uid (present (uq_app_id q)))
               \<and> length (us_recent_events us)
                   = min 10 (length (user_events st uid (present (uq_app_id q))))
               \<and> sorted_wrt (\<lambda>a b. re_timestamp b \<le> re_timestamp a) (us_recent_events us)"
      using us recent_rows_subset by blast
  qed
  from a b c d show ?thesis by blast
qed

text \<open>
  C1. The claim says that \<open>GET /api/analytics/user-stats\<close> with a user id answers 404
  when no event matches and 200 with \<open>total_events = N\<close> and at most 10 recent events when
  \<open>N > 0\<close> events match. Here the store holds two events of user \<open>u1\<close>, one from
  each of two addresses. The request matches no registered route (the line that registers
  it is commented out) and ends at the 404 handler of the application. The handler
  \<open>userStats\<close> itself, called on the same input, answers 200 with both events in
  \<open>recent_events\<close>, most recent first, but with \<open>total_events = 1\<close>: the count comes from
  the one row that \<open>GROUP BY ip_address ... ORDER BY last_seen DESC LIMIT 1\<close> selects.
\<close>

theorem user_stats_request_example:
  "present (uq_user_id query_user_u1) = Some ''u1''
   \<and> length (user_events store_events ''u1'' (present (uq_app_id query_user_u1))) = 2
   \<and> resolve GET [''api'', ''analytics'', ''user-stats''] = H_notFound
   \<and> notFoundHandler ''GET /api/analytics/user-stats''
       = \<lparr>status = 404,
          body = Error_body ''Not Found'' ''Route GET /api/analytics/user-stats not found''\<rparr>
   \<and> userStats rt_example store_events query_user_u1
       = ok (User_stats
              \<lparr>us_user_id = ''u1'', us_app_id = None, us_total_events = 1,
               us_first_seen = 1704067150000, us_last_seen = 1704067150000,
               us_ip_address = Some ''10.0.0.2'',
               us_recent_events =
                 [\<lparr>re_event_name = ''page_view'', re_timestamp = 1704067150000,
                   re_properties = None\<rparr>,
                  \<lparr>re_event_name = ''page_view'', re_timestamp = 1704067100000,
                   re_properties = None\<rparr>]\<rparr>)"
  by code_simp

end
